theory Spec2Isabelle
  imports Main "HOL-Library.Char_ord" "HOL-Library.List_Lexorder" "HOL-Library.Sublist"
begin

section \<open>The Go library functions that cmd/browse.go calls\<close>

text \<open>
  The file manager of \<^verbatim>\<open>cmd/browse.go\<close> is a state machine over its own record
  (\<^verbatim>\<open>FileManager\<close>) and the file system. The program's functions are embedded below
  line by line; the functions of Go's standard library that they call (\<^verbatim>\<open>strings\<close>,
  \<^verbatim>\<open>fmt\<close>, \<^verbatim>\<open>path/filepath\<close>, \<^verbatim>\<open>os\<close>) are modelled here, for a Unix system.
  Go strings are byte strings, hence \<^typ>\<open>string\<close>.
\<close>

subsection \<open>strings and fmt\<close>

definition strings_HasPrefix :: "string \<Rightarrow> string \<Rightarrow> bool" where
  "strings_HasPrefix s p = prefix p s"

definition strings_TrimSuffix :: "string \<Rightarrow> string \<Rightarrow> string" where
  "strings_TrimSuffix s suf = (if suffix suf s then take (length s - length suf) s else s)"

fun strings_Contains :: "string \<Rightarrow> string \<Rightarrow> bool" where
  "strings_Contains [] sub = (sub = [])"
| "strings_Contains (c # cs) sub = (prefix sub (c # cs) \<or> strings_Contains cs sub)"

text \<open>\<^verbatim>\<open>strings.ToLower\<close> on the ASCII letters (other bytes are kept).\<close>

definition lower_char :: "char \<Rightarrow> char" where
  "lower_char c =
     (if CHR ''A'' \<le> c \<and> c \<le> CHR ''Z'' then char_of (of_char c + (32::nat)) else c)"

definition strings_ToLower :: "string \<Rightarrow> string" where
  "strings_ToLower s = map lower_char s"

definition is_space :: "char \<Rightarrow> bool" where
  "is_space c = (c \<in> {CHR '' '', CHR 0x09, CHR 0x0A, CHR 0x0B, CHR 0x0C, CHR 0x0D})"

definition strings_TrimSpace :: "string \<Rightarrow> string" where
  "strings_TrimSpace s = rev (dropWhile is_space (rev (dropWhile is_space s)))"

text \<open>The verb \<^verbatim>\<open>%d\<close> of \<^verbatim>\<open>fmt.Sprintf\<close> on a non-negative integer.\<close>

fun itoa :: "nat \<Rightarrow> string" where
  "itoa n = (if n < 10 then [char_of (48 + n)]
             else itoa (n div 10) @ [char_of (48 + n mod 10)])"

text \<open>\<^verbatim>\<open>fmt.Sprintf("%s_%d%s", name, counter, ext)\<close>\<close>

definition Sprintf_s_d_s :: "string \<Rightarrow> nat \<Rightarrow> string \<Rightarrow> string" where
  "Sprintf_s_d_s name counter ext = name @ ''_'' @ itoa counter @ ext"

subsection \<open>path/filepath\<close>

text \<open>
  A path string is read as its list of elements: \<open>split_sep\<close> is
  \<^verbatim>\<open>strings.Split(s, "/")\<close>, and \<open>walk\<close> follows one element from a directory given
  as the list of names from the root (an empty element and \<^verbatim>\<open>.\<close> stay, \<^verbatim>\<open>..\<close> goes up and
  stays at the root).
\<close>

type_synonym path = "string list"

fun split_sep :: "string \<Rightarrow> string list" where
  "split_sep [] = [[]]"
| "split_sep (c # cs) =
     (if c = CHR ''/'' then [] # split_sep cs
      else (case split_sep cs of [] \<Rightarrow> [[c]] | x # xs \<Rightarrow> (c # x) # xs))"

definition walk :: "path \<Rightarrow> string \<Rightarrow> path" where
  "walk p c = (if c = [] \<or> c = ''.'' then p else if c = ''..'' then butlast p else p @ [c])"

definition walk_rel :: "string list \<Rightarrow> string \<Rightarrow> string list" where
  "walk_rel p c =
     (if c = [] \<or> c = ''.'' then p
      else if c = ''..'' then (if p = [] \<or> last p = ''..'' then p @ [c] else butlast p)
      else p @ [c])"

fun join_sep :: "string list \<Rightarrow> string" where
  "join_sep [] = []"
| "join_sep [x] = x"
| "join_sep (x # y # zs) = x @ CHR ''/'' # join_sep (y # zs)"

definition render :: "path \<Rightarrow> string" where
  "render p = CHR ''/'' # join_sep p"

definition filepath_Clean :: "string \<Rightarrow> string" where
  "filepath_Clean s =
     (if s = [] then ''.''
      else if hd s = CHR ''/'' then render (foldl walk [] (split_sep s))
      else (let cs = foldl walk_rel [] (split_sep s) in if cs = [] then ''.'' else join_sep cs))"

text \<open>\<^verbatim>\<open>filepath.Join(a, b)\<close>: empty elements are ignored, the result is cleaned.\<close>

definition filepath_Join :: "string \<Rightarrow> string \<Rightarrow> string" where
  "filepath_Join a b =
     (if a = [] \<and> b = [] then []
      else if a = [] then filepath_Clean b
      else if b = [] then filepath_Clean a
      else filepath_Clean (a @ CHR ''/'' # b))"

text \<open>\<^verbatim>\<open>filepath.Dir\<close>: everything up to the last separator, cleaned.\<close>

definition filepath_Dir :: "string \<Rightarrow> string" where
  "filepath_Dir p = filepath_Clean (rev (dropWhile (\<lambda>c. c \<noteq> CHR ''/'') (rev p)))"

text \<open>\<^verbatim>\<open>filepath.Base\<close>: the last element, after the trailing separators are dropped.\<close>

definition filepath_Base :: "string \<Rightarrow> string" where
  "filepath_Base p =
     (if p = [] then ''.''
      else (let q = dropWhile (\<lambda>c. c = CHR ''/'') (rev p);
                b = rev (takeWhile (\<lambda>c. c \<noteq> CHR ''/'') q)
            in if b = [] then ''/'' else b))"

text \<open>
  \<^verbatim>\<open>filepath.Ext\<close> scans from the end, stops at a separator, and returns the suffix that
  starts at the first dot it meets.
\<close>

definition filepath_Ext :: "string \<Rightarrow> string" where
  "filepath_Ext p =
     (let t = takeWhile (\<lambda>c. c \<noteq> CHR ''/'' \<and> c \<noteq> CHR ''.'') (rev p);
          r = drop (length t) (rev p)
      in if r \<noteq> [] \<and> hd r = CHR ''.'' then CHR ''.'' # rev t else [])"

subsection \<open>os: the file system\<close>

text \<open>
  The file system is the list of the objects that exist, each under the list of names that
  leads to it from the root, and the roots of the subtrees that refuse every change (a
  read-only mount or missing permission). The operating system resolves a path string from
  the root: the working directory is taken to be the root, and there are no symbolic
  links. A call fails with \<^verbatim>\<open>ENOENT\<close> on the empty string. The only error of
  \<^verbatim>\<open>os.Stat\<close> in this model is that the object does not exist.
\<close>

datatype node = File string | Dir

record filesys =
  nodes :: "(path \<times> node) list"
  readonly :: "path list"

definition resolve :: "string \<Rightarrow> path" where
  "resolve s = foldl walk [] (split_sep s)"

definition lookup :: "filesys \<Rightarrow> path \<Rightarrow> node option" where
  "lookup fs p = map_of (nodes fs) p"

definition is_readonly :: "filesys \<Rightarrow> path \<Rightarrow> bool" where
  "is_readonly fs p = list_ex (\<lambda>r. prefix r p) (readonly fs)"

definition os_Stat :: "filesys \<Rightarrow> string \<Rightarrow> node option" where
  "os_Stat fs s = (if s = [] then None else lookup fs (resolve s))"

text \<open>
  \<^verbatim>\<open>os.ReadDir\<close>: the names in a directory with their kind, sorted by name; an error
  when the path is not a directory.
\<close>

definition os_ReadDir :: "filesys \<Rightarrow> string \<Rightarrow> (string \<times> bool) list option" where
  "os_ReadDir fs s =
     (if s = [] \<or> lookup fs (resolve s) \<noteq> Some Dir then None
      else Some (sort_key fst
             (map (\<lambda>(p, n). (last p, n = Dir))
                (filter (\<lambda>(p, n). p \<noteq> [] \<and> butlast p = resolve s) (nodes fs)))))"

text \<open>
  \<^verbatim>\<open>os.Rename(old, new)\<close> moves an object with everything below it. Go looks at the
  target first: when it is a directory, the call fails unless the source is the same
  object under another spelling of the path (the same spelling fails too). Then comes the
  system call, which fails when the source is missing, when the parent of the target is
  not a directory, when either side is read-only, when the target lies inside the source,
  and when the target exists and is of the other kind; an existing file at the target is
  replaced.
\<close>

definition move_key :: "path \<Rightarrow> path \<Rightarrow> path \<Rightarrow> path" where
  "move_key a b p = (if prefix a p then b @ drop (length a) p else p)"

definition move_nodes :: "path \<Rightarrow> path \<Rightarrow> (path \<times> node) list \<Rightarrow> (path \<times> node) list" where
  "move_nodes a b ns = map (\<lambda>(p, n). (move_key a b p, n)) ns"

definition os_Rename :: "filesys \<Rightarrow> string \<Rightarrow> string \<Rightarrow> filesys option" where
  "os_Rename fs old new =
     (let a = resolve old; b = resolve new in
      if old = [] \<or> new = [] then None
      else if lookup fs b = Some Dir \<and> (lookup fs a = None \<or> new = old \<or> a \<noteq> b) then None
      else case lookup fs a of
        None \<Rightarrow> None
      | Some na \<Rightarrow>
          if a = [] \<or> b = [] then None
          else if lookup fs (butlast b) \<noteq> Some Dir then None
          else if is_readonly fs a \<or> is_readonly fs b then None
          else if a = b then Some fs
          else if prefix a b then None
          else (case lookup fs b of
                  None \<Rightarrow> Some (fs\<lparr>nodes := move_nodes a b (nodes fs)\<rparr>)
                | Some nb \<Rightarrow>
                    if (na = Dir) \<noteq> (nb = Dir) then None
                    else if list_ex (\<lambda>(p, n). strict_prefix b p) (nodes fs) then None
                    else Some (fs\<lparr>nodes :=
                           move_nodes a b (filter (\<lambda>(p, n). p \<noteq> b) (nodes fs))\<rparr>)))"

text \<open>
  \<^verbatim>\<open>os.RemoveAll\<close> removes an object with everything below it; a missing object is no
  error. When something read-only is in the way the call reports an error, and the model
  leaves the file system as it is. The flag is "no error".
\<close>

definition os_RemoveAll :: "filesys \<Rightarrow> string \<Rightarrow> filesys \<times> bool" where
  "os_RemoveAll fs s =
     (let a = resolve s in
      if s = [] then (fs, True)
      else if a = [] then (fs, False)
      else if lookup fs a = None then (fs, True)
      else if is_readonly fs a \<or> list_ex (\<lambda>r. prefix a r) (readonly fs) then (fs, False)
      else (fs\<lparr>nodes := filter (\<lambda>(p, n). \<not> prefix a p) (nodes fs)\<rparr>, True))"

text \<open>
  \<^verbatim>\<open>os.MkdirTemp("", pattern)\<close> makes a new directory in the default directory for
  temporary files, named by the pattern and a random string, which is an input here. Go
  tries other random strings when the name is taken; the model reports the failure.
\<close>

definition os_TempDir :: string where
  "os_TempDir = ''/tmp''"

definition os_MkdirTemp :: "filesys \<Rightarrow> string \<Rightarrow> string \<Rightarrow> (string \<times> filesys) option" where
  "os_MkdirTemp fs pattern rnd =
     (let name = filepath_Join os_TempDir (pattern @ rnd); p = resolve name in
      if lookup fs (resolve os_TempDir) \<noteq> Some Dir then None
      else if CHR ''/'' \<in> set (pattern @ rnd) then None
      else if is_readonly fs p then None
      else if lookup fs p \<noteq> None then None
      else Some (name, fs\<lparr>nodes := nodes fs @ [(p, Dir)]\<rparr>))"

text \<open>
  \<^verbatim>\<open>os.MkdirAll\<close> makes a directory and the missing directories above it; it fails when a
  name on the way is a file, or read-only is in the way. \<open>prefixes\<close> lists a path's
  ancestors from the root down to the path itself.
\<close>

definition is_file :: "node option \<Rightarrow> bool" where
  "is_file x = (case x of Some (File c) \<Rightarrow> True | _ \<Rightarrow> False)"

definition missing_dirs :: "filesys \<Rightarrow> path \<Rightarrow> path list" where
  "missing_dirs fs p = filter (\<lambda>q. lookup fs q = None) (prefixes p)"

definition os_MkdirAll :: "filesys \<Rightarrow> string \<Rightarrow> filesys option" where
  "os_MkdirAll fs s =
     (let p = resolve s in
      if s = [] then None
      else if list_ex (\<lambda>q. is_file (lookup fs q)) (prefixes p) then None
      else if missing_dirs fs p \<noteq> [] \<and> is_readonly fs p then None
      else Some (fs\<lparr>nodes := nodes fs @ map (\<lambda>q. (q, Dir)) (missing_dirs fs p)\<rparr>))"

text \<open>
  Writing a file: \<^verbatim>\<open>os.Create\<close> followed by writing the whole content. It fails when the
  parent is not a directory, when the target is a directory, and on read-only.
\<close>

definition os_WriteFile :: "filesys \<Rightarrow> string \<Rightarrow> string \<Rightarrow> filesys option" where
  "os_WriteFile fs s content =
     (let p = resolve s in
      if s = [] \<or> p = [] then None
      else if lookup fs (butlast p) \<noteq> Some Dir then None
      else if lookup fs p = Some Dir then None
      else if is_readonly fs p then None
      else Some (fs\<lparr>nodes := filter (\<lambda>(q, n). q \<noteq> p) (nodes fs) @ [(p, File content)]\<rparr>))"

section \<open>The state of the file manager\<close>

text \<open>
  The structs of \<^verbatim>\<open>cmd/browse.go\<close>. The cursor is a Go \<^verbatim>\<open>int\<close>; the clipboard is a
  pointer to an entry or nil; the time of the last command is a reading of the monotonic
  clock in nanoseconds.
\<close>

record FileEntry =
  Name :: string
  Path :: string
  IsDir :: bool
  Selected :: bool

record UndoAction =
  Type :: string
  OldPath :: string
  NewPath :: string
  Entry :: FileEntry
  OldName :: string

record FileManager =
  CurrentPath :: string
  Entries :: "FileEntry list"
  Cursor :: int
  Width :: int
  Height :: int
  clipboard :: "FileEntry option"
  clipboardOp :: string
  searchMode :: bool
  searchQuery :: string
  renameMode :: bool
  renameText :: string
  zoxideMode :: bool
  zoxideQuery :: string
  lastCommand :: string
  commandTime :: int
  showWhichKey :: bool
  undoStack :: "UndoAction list"
  trashDir :: string

text \<open>
  A run-time panic of Go is a value: indexing a slice outside its range. The recursive
  copy of a directory takes fuel, and \<open>OutOfFuel\<close> says that it did not come to an end
  within the fuel given.
\<close>

datatype fault = IndexOutOfRange | OutOfFuel

definition go_index :: "'a list \<Rightarrow> int \<Rightarrow> fault + 'a" where
  "go_index xs i =
     (if 0 \<le> i \<and> i < int (length xs) then Inr (xs ! nat i) else Inl IndexOutOfRange)"

text \<open>
  What a handler reads from outside the program and the file system: the clock, the
  random part of the name of a temporary directory, the answer of the external command
  \<^verbatim>\<open>zoxide query\<close> (its output, or nothing when it fails), and the fuel of the recursive copy.
\<close>

record env =
  now :: int
  mktemp_random :: string
  zoxide_output :: "string \<Rightarrow> string option"
  copy_fuel :: nat

text \<open>
  The messages of the event loop. A key message has a type and the text that
  \<^verbatim>\<open>msg.String()\<close> returns for it.
\<close>

datatype key_type = KeyEnter | KeyEsc | KeyBackspace | KeyRunes | KeyOther

datatype msg =
  ReloadDirectoryMsg
| KeyMsg key_type string
| WindowSizeMsg int int
| OtherMsg

datatype cmd = NoCmd | Quit | ExecShell string

section \<open>Reading a directory\<close>

text \<open>
  \<^verbatim>\<open>sort.Slice\<close> with the comparison of \<^verbatim>\<open>ReadDirectory\<close>: directories first, then by
  name. The names in one directory differ, so the comparison is a strict linear order on
  the entries and the sorted list is the same for every sorting algorithm; the model
  sorts by insertion.
\<close>

definition entry_less :: "FileEntry \<Rightarrow> FileEntry \<Rightarrow> bool" where
  "entry_less a b = (if IsDir a \<noteq> IsDir b then IsDir a else Name a < Name b)"

primrec insert_by :: "('a \<Rightarrow> 'a \<Rightarrow> bool) \<Rightarrow> 'a \<Rightarrow> 'a list \<Rightarrow> 'a list" where
  "insert_by lt x [] = [x]"
| "insert_by lt x (y # ys) = (if lt y x then y # insert_by lt x ys else x # y # ys)"

definition sort_Slice :: "('a \<Rightarrow> 'a \<Rightarrow> bool) \<Rightarrow> 'a list \<Rightarrow> 'a list" where
  "sort_Slice lt xs = foldr (insert_by lt) xs []"

definition ReadDirectory :: "filesys \<Rightarrow> string \<Rightarrow> FileEntry list" where
  "ReadDirectory fs path =
     (let files = (case os_ReadDir fs path of None \<Rightarrow> [] | Some fl \<Rightarrow> fl) in
      sort_Slice entry_less
        (map (\<lambda>(name, isdir).
                \<lparr>Name = name, Path = filepath_Join path name, IsDir = isdir, Selected = False\<rparr>)
           (filter (\<lambda>(name, isdir). \<not> strings_HasPrefix name ''.'') files)))"

section \<open>The chord recogniser\<close>

text \<open>\<^verbatim>\<open>500*time.Millisecond\<close> in nanoseconds.\<close>

definition chord_window :: int where
  "chord_window = 500 * 1000000"

definition handleDoubleCommand :: "int \<Rightarrow> string \<Rightarrow> FileManager \<Rightarrow> bool \<times> FileManager" where
  "handleDoubleCommand t c m =
     (if c = lastCommand m \<and> t - commandTime m < chord_window
      then (True, m\<lparr>lastCommand := []\<rparr>)
      else (False, m\<lparr>lastCommand := c, commandTime := t\<rparr>))"

section \<open>The file operations\<close>

text \<open>The cursor is pulled back into a list that became shorter (in \<^verbatim>\<open>cutFile\<close> and \<^verbatim>\<open>deleteFile\<close>).\<close>

definition clamp_cursor :: "FileManager \<Rightarrow> FileManager" where
  "clamp_cursor m =
     (if Cursor m \<ge> int (length (Entries m)) \<and> length (Entries m) > 0
      then m\<lparr>Cursor := int (length (Entries m)) - 1\<rparr>
      else if length (Entries m) = 0 then m\<lparr>Cursor := 0\<rparr>
      else m)"

definition cutFile :: "FileManager \<Rightarrow> fault + FileManager" where
  "cutFile m =
     (if length (Entries m) > 0 \<and> Cursor m < int (length (Entries m)) then
        (case go_index (Entries m) (Cursor m) of
           Inl e \<Rightarrow> Inl e
         | Inr entry \<Rightarrow>
             let undoAction = \<lparr>Type = ''cut'', OldPath = Path entry, NewPath = [],
                               Entry = entry, OldName = []\<rparr>;
                 i = nat (Cursor m)
             in Inr (clamp_cursor
                  (m\<lparr>clipboard := Some entry, clipboardOp := ''cut'',
                     undoStack := undoStack m @ [undoAction],
                     Entries := take i (Entries m) @ drop (i + 1) (Entries m)\<rparr>)))
      else Inr m)"

definition copyFile :: "FileManager \<Rightarrow> fault + FileManager" where
  "copyFile m =
     (if length (Entries m) > 0 \<and> Cursor m < int (length (Entries m)) then
        (case go_index (Entries m) (Cursor m) of
           Inl e \<Rightarrow> Inl e
         | Inr entry \<Rightarrow> Inr (m\<lparr>clipboard := Some entry, clipboardOp := ''copy''\<rparr>))
      else Inr m)"

subsection \<open>The name of a deleted entry in the trash\<close>

text \<open>
  The body of the loop in \<^verbatim>\<open>deleteFile\<close>: the extension of the first name tried, the name
  without it, and the next name to try, with the counter before the extension.
\<close>

definition trash_candidate :: "string \<Rightarrow> nat \<Rightarrow> string" where
  "trash_candidate originalTrashPath counter =
     (let ext = filepath_Ext originalTrashPath;
          name = strings_TrimSuffix originalTrashPath ext
      in Sprintf_s_d_s name counter ext)"

text \<open>
  The loop ends because the names it tries differ from one another and the file system is
  finite. \<open>atoi\<close> reads a decimal numeral back, and \<open>taken\<close> is the set of the
  existing objects that a later round of the loop could meet.
\<close>

definition atoi :: "string \<Rightarrow> nat" where
  "atoi s = foldl (\<lambda>a c. 10 * a + (of_char c - 48)) 0 s"

definition taken :: "filesys \<Rightarrow> string \<Rightarrow> nat \<Rightarrow> path set" where
  "taken fs orig c =
     {p \<in> set (map fst (nodes fs)). \<exists>j\<ge>c. p = resolve (trash_candidate orig j)}"

lemma atoi_snoc: "atoi (s @ [c]) = 10 * atoi s + (of_char c - 48)"
  by (simp add: atoi_def)

lemma atoi_itoa: "atoi (itoa n) = n"
proof (induction n rule: itoa.induct)
  case (1 n)
  show ?case
  proof (cases "n < 10")
    case True
    then show ?thesis by (subst itoa.simps) (simp add: atoi_def)
  next
    case False
    with 1 have ih: "atoi (itoa (n div 10)) = n div 10" by simp
    have m: "n mod 10 < 10" by simp
    have "atoi (itoa n) =
            10 * atoi (itoa (n div 10)) + (of_char (char_of (48 + n mod 10) :: char) - 48)"
      using False by (subst itoa.simps) (simp add: atoi_snoc del: itoa.simps)
    also have "\<dots> = 10 * (n div 10) + n mod 10"
      using m ih by (simp del: itoa.simps)
    finally show ?thesis by simp
  qed
qed

lemma itoa_inj: "itoa i = itoa j \<Longrightarrow> i = j"
  by (metis atoi_itoa)

lemma itoa_no_sep: "CHR ''/'' \<notin> set (itoa n)"
proof (induction n rule: itoa.induct)
  case (1 n)
  have d: "\<And>k::nat. k < 10 \<Longrightarrow> (char_of (48 + k) :: char) \<noteq> CHR ''/''"
  proof
    fix k :: nat
    assume k: "k < 10" and e: "(char_of (48 + k) :: char) = CHR ''/''"
    from e have "of_char (char_of (48 + k) :: char) = (of_char (CHR ''/'') :: nat)" by simp
    with k show False by simp
  qed
  show ?case
  proof (cases "n < 10")
    case True
    then show ?thesis using d[of n] by (subst itoa.simps) simp
  next
    case False
    with 1 have "CHR ''/'' \<notin> set (itoa (n div 10))" by simp
    moreover have "(char_of (48 + n mod 10) :: char) \<noteq> CHR ''/''"
      using d[of "n mod 10"] by simp
    ultimately show ?thesis using False by (subst itoa.simps) (simp del: itoa.simps)
  qed
qed

lemma split_sep_nonempty: "split_sep s \<noteq> []"
  by (induction s) (auto split: list.splits)

lemma split_sep_no_sep: "CHR ''/'' \<notin> set t \<Longrightarrow> split_sep t = [t]"
  by (induction t) (auto split: list.splits)

lemma split_sep_append_no_sep:
  "CHR ''/'' \<notin> set t \<Longrightarrow>
     split_sep (s @ t) = butlast (split_sep s) @ [last (split_sep s) @ t]"
proof (induction s)
  case Nil
  then show ?case by (simp add: split_sep_no_sep)
next
  case (Cons c s)
  then show ?case
    using split_sep_nonempty[of s] split_sep_nonempty[of "s @ t"]
    by (cases "split_sep s"; cases "split_sep (s @ t)") (auto split: list.splits if_splits)
qed

lemma split_sep_sep_append: "split_sep (s @ CHR ''/'' # t) = split_sep s @ split_sep t"
  by (induction s) (auto split: list.splits simp: split_sep_nonempty)

lemma Ext_no_sep: "CHR ''/'' \<notin> set (filepath_Ext p)"
proof -
  have "CHR ''/'' \<notin> set (takeWhile (\<lambda>c. c \<noteq> CHR ''/'' \<and> c \<noteq> CHR ''.'') (rev p))"
    by (auto dest: set_takeWhileD)
  then show ?thesis by (simp add: filepath_Ext_def Let_def)
qed

lemma walk_underscore: "CHR ''_'' \<in> set y \<Longrightarrow> walk p y = p @ [y]"
  by (auto simp: walk_def)

lemma resolve_candidate:
  "resolve (trash_candidate orig k) =
     foldl walk [] (butlast (split_sep (strings_TrimSuffix orig (filepath_Ext orig))))
       @ [last (split_sep (strings_TrimSuffix orig (filepath_Ext orig)))
            @ ''_'' @ itoa k @ filepath_Ext orig]"
proof -
  let ?ext = "filepath_Ext orig"
  let ?name = "strings_TrimSuffix orig ?ext"
  have ns: "CHR ''/'' \<notin> set (''_'' @ itoa k @ ?ext)"
    using itoa_no_sep[of k] Ext_no_sep[of orig] by (simp del: itoa.simps)
  have "split_sep (?name @ (''_'' @ itoa k @ ?ext))
          = butlast (split_sep ?name) @ [last (split_sep ?name) @ (''_'' @ itoa k @ ?ext)]"
    using ns by (rule split_sep_append_no_sep)
  then show ?thesis
    by (simp add: resolve_def trash_candidate_def Sprintf_s_d_s_def Let_def walk_underscore
             del: itoa.simps)
qed

lemma resolve_candidate_inj:
  "resolve (trash_candidate orig i) = resolve (trash_candidate orig j) \<Longrightarrow> i = j"
  by (simp add: resolve_candidate itoa_inj del: itoa.simps)

lemma candidate_nonempty: "trash_candidate orig k \<noteq> []"
  by (simp add: trash_candidate_def Sprintf_s_d_s_def Let_def del: itoa.simps)

lemma finite_taken: "finite (taken fs orig c)"
  by (simp add: taken_def)

lemma taken_mono: "taken fs orig (Suc c) \<subseteq> taken fs orig c"
  unfolding taken_def using Suc_leD by blast

lemma lookup_in_nodes: "lookup fs p \<noteq> None \<Longrightarrow> p \<in> set (map fst (nodes fs))"
proof -
  assume "lookup fs p \<noteq> None"
  then obtain y where "map_of (nodes fs) p = Some y"
    by (auto simp: lookup_def)
  then have "(p, y) \<in> set (nodes fs)" by (rule map_of_SomeD)
  then show ?thesis by force
qed

lemma taken_strict:
  assumes "os_Stat fs (trash_candidate orig c) \<noteq> None"
  shows "taken fs orig (Suc c) \<subset> taken fs orig c"
proof -
  let ?p = "resolve (trash_candidate orig c)"
  from assms have "lookup fs ?p \<noteq> None"
    by (simp add: os_Stat_def candidate_nonempty)
  then have "?p \<in> set (map fst (nodes fs))" by (rule lookup_in_nodes)
  then have "?p \<in> taken fs orig c" by (auto simp: taken_def)
  moreover have "?p \<notin> taken fs orig (Suc c)"
    by (auto simp: taken_def dest: resolve_candidate_inj)
  ultimately show ?thesis using taken_mono[of fs orig c] by blast
qed

text \<open>
  The loop of \<^verbatim>\<open>deleteFile\<close>: it leaves with the first path that does not exist.
\<close>

function trash_loop :: "filesys \<Rightarrow> string \<Rightarrow> string \<Rightarrow> nat \<Rightarrow> string" where
  "trash_loop fs originalTrashPath trashPath counter =
     (if os_Stat fs trashPath = None then trashPath
      else trash_loop fs originalTrashPath
             (trash_candidate originalTrashPath counter) (counter + 1))"
  by pat_completeness auto
termination
proof (relation "measure (\<lambda>(fs, orig, tp, c).
          2 * card (taken fs orig c) + (if os_Stat fs tp = None then 0 else 1))")
  show "wf (measure (\<lambda>(fs, orig, tp, c).
          2 * card (taken fs orig c) + (if os_Stat fs tp = None then 0 else 1)))"
    by simp
next
  fix fs :: filesys and orig tp :: string and c :: nat
  assume ex: "os_Stat fs tp \<noteq> None"
  show "((fs, orig, trash_candidate orig c, c + 1), (fs, orig, tp, c))
          \<in> measure (\<lambda>(fs, orig, tp, c).
              2 * card (taken fs orig c) + (if os_Stat fs tp = None then 0 else 1))"
  proof (cases "os_Stat fs (trash_candidate orig c) = None")
    case True
    have "card (taken fs orig (Suc c)) \<le> card (taken fs orig c)"
      by (rule card_mono[OF finite_taken taken_mono])
    with True ex show ?thesis by auto
  next
    case False
    have "card (taken fs orig (Suc c)) < card (taken fs orig c)"
      by (rule psubset_card_mono[OF finite_taken taken_strict[OF False]])
    with False ex show ?thesis by auto
  qed
qed

declare trash_loop.simps [simp del]

subsection \<open>Delete, paste, undo, search, rename, jump\<close>

definition deleteFile :: "env \<Rightarrow> FileManager \<Rightarrow> filesys \<Rightarrow> fault + (FileManager \<times> filesys)" where
  "deleteFile e m fs =
     (if length (Entries m) > 0 \<and> Cursor m < int (length (Entries m)) then
        (case go_index (Entries m) (Cursor m) of
           Inl f \<Rightarrow> Inl f
         | Inr entry \<Rightarrow>
             (case (if trashDir m = []
                    then (case os_MkdirTemp fs ''tfm_trash_'' (mktemp_random e) of
                            None \<Rightarrow> None
                          | Some (tmpDir, fs1) \<Rightarrow> Some (m\<lparr>trashDir := tmpDir\<rparr>, fs1))
                    else Some (m, fs)) of
                None \<Rightarrow> Inr (m, fs)
              | Some (m1, fs1) \<Rightarrow>
                  let originalTrashPath = filepath_Join (trashDir m1) (Name entry);
                      trashPath = trash_loop fs1 originalTrashPath originalTrashPath 1
                  in (case os_Rename fs1 (Path entry) trashPath of
                        None \<Rightarrow> Inr (m1, fs1)
                      | Some fs2 \<Rightarrow>
                          let undoAction = \<lparr>Type = ''delete'', OldPath = Path entry,
                                            NewPath = trashPath, Entry = entry, OldName = []\<rparr>
                          in Inr (clamp_cursor
                                    (m1\<lparr>undoStack := undoStack m1 @ [undoAction],
                                        Entries := ReadDirectory fs2 (CurrentPath m1)\<rparr>),
                                  fs2))))
      else Inr (m, fs))"

text \<open>
  The function \<^verbatim>\<open>copyFile(src, dst)\<close> of the source (the method of the same name is
  \<open>copyFile\<close> above): open the source, create the target empty, write the content.
\<close>

definition copyFile_fn :: "filesys \<Rightarrow> string \<Rightarrow> string \<Rightarrow> filesys \<times> bool" where
  "copyFile_fn fs src dst =
     (case os_Stat fs src of
        None \<Rightarrow> (fs, False)
      | Some srcFile \<Rightarrow>
          (case os_WriteFile fs dst [] of
             None \<Rightarrow> (fs, False)
           | Some fs1 \<Rightarrow>
               (case os_Stat fs1 src of
                  Some (File content) \<Rightarrow>
                    (case os_WriteFile fs1 dst content of
                       None \<Rightarrow> (fs1, False)
                     | Some fs2 \<Rightarrow> (fs2, True))
                | _ \<Rightarrow> (fs1, False))))"

text \<open>
  \<^verbatim>\<open>copyFileOrDir\<close> and \<^verbatim>\<open>copyDir\<close> call each other; a directory copied into itself
  is read again after the target was made in it, so the recursion takes fuel. The flag of
  the result is "no error".
\<close>

fun copyFileOrDir :: "nat \<Rightarrow> filesys \<Rightarrow> string \<Rightarrow> string \<Rightarrow> fault + (filesys \<times> bool)"
  and copyDir :: "nat \<Rightarrow> filesys \<Rightarrow> string \<Rightarrow> string \<Rightarrow> fault + (filesys \<times> bool)"
  and copyDir_loop ::
    "nat \<Rightarrow> filesys \<Rightarrow> string \<Rightarrow> string \<Rightarrow> string list \<Rightarrow> fault + (filesys \<times> bool)"
where
  "copyFileOrDir 0 fs src dst = Inl OutOfFuel"
| "copyFileOrDir (Suc n) fs src dst =
     (case os_Stat fs src of
        None \<Rightarrow> Inr (fs, False)
      | Some srcInfo \<Rightarrow>
          if srcInfo = Dir then copyDir n fs src dst else Inr (copyFile_fn fs src dst))"
| "copyDir n fs src dst =
     (case os_Stat fs src of
        None \<Rightarrow> Inr (fs, False)
      | Some srcInfo \<Rightarrow>
          (case os_MkdirAll fs dst of
             None \<Rightarrow> Inr (fs, False)
           | Some fs1 \<Rightarrow>
               (case os_ReadDir fs1 src of
                  None \<Rightarrow> Inr (fs1, False)
                | Some entries \<Rightarrow> copyDir_loop n fs1 src dst (map fst entries))))"
| "copyDir_loop n fs src dst [] = Inr (fs, True)"
| "copyDir_loop n fs src dst (name # rest) =
     (case copyFileOrDir n fs (filepath_Join src name) (filepath_Join dst name) of
        Inl f \<Rightarrow> Inl f
      | Inr (fs1, ok) \<Rightarrow> if ok then copyDir_loop n fs1 src dst rest else Inr (fs1, False))"

definition pasteFile :: "env \<Rightarrow> FileManager \<Rightarrow> filesys \<Rightarrow> fault + (FileManager \<times> filesys)" where
  "pasteFile e m fs =
     (case clipboard m of
        None \<Rightarrow> Inr (m, fs)
      | Some clip \<Rightarrow>
          let destPath = filepath_Join (CurrentPath m) (Name clip) in
          if clipboardOp m = ''cut'' then
            (if filepath_Dir (Path clip) = CurrentPath m then
               Inr (m\<lparr>clipboard := None, clipboardOp := [],
                      Entries := ReadDirectory fs (CurrentPath m)\<rparr>, fs)
             else
               (case os_Stat fs (Path clip) of
                  None \<Rightarrow> Inr (m\<lparr>clipboard := None, clipboardOp := []\<rparr>, fs)
                | Some info \<Rightarrow>
                    (case os_Rename fs (Path clip) destPath of
                       None \<Rightarrow> Inr (m\<lparr>clipboard := None, clipboardOp := []\<rparr>, fs)
                     | Some fs1 \<Rightarrow>
                         let undoAction = \<lparr>Type = ''move'', OldPath = Path clip,
                                           NewPath = destPath, Entry = clip, OldName = []\<rparr>
                         in Inr (m\<lparr>undoStack := undoStack m @ [undoAction],
                                   clipboard := None, clipboardOp := [],
                                   Entries := ReadDirectory fs1 (CurrentPath m)\<rparr>, fs1))))
          else if clipboardOp m = ''copy'' then
            (let ext = filepath_Ext (Name clip);
                 name = strings_TrimSuffix (Name clip) ext;
                 destPath1 = (if os_Stat fs destPath \<noteq> None
                              then filepath_Join (CurrentPath m) (name @ ''_copy'' @ ext)
                              else destPath)
             in case copyFileOrDir (copy_fuel e) fs (Path clip) destPath1 of
                  Inl f \<Rightarrow> Inl f
                | Inr (fs1, ok) \<Rightarrow>
                    if ok then
                      (let undoAction = \<lparr>Type = ''copy'', OldPath = [],
                                          NewPath = destPath1, Entry = clip, OldName = []\<rparr>
                       in Inr (m\<lparr>undoStack := undoStack m @ [undoAction],
                                 Entries := ReadDirectory fs1 (CurrentPath m)\<rparr>, fs1))
                    else Inr (m, fs1))
          else Inr (m\<lparr>Entries := ReadDirectory fs (CurrentPath m)\<rparr>, fs))"

text \<open>The reversing move of an undo: on failure the action goes back on the stack and nothing is reloaded.\<close>

definition undo_move :: "UndoAction \<Rightarrow> FileManager \<Rightarrow> filesys \<Rightarrow> FileManager \<times> filesys" where
  "undo_move lastAction m1 fs =
     (case os_Rename fs (NewPath lastAction) (OldPath lastAction) of
        None \<Rightarrow> (m1\<lparr>undoStack := undoStack m1 @ [lastAction]\<rparr>, fs)
      | Some fs1 \<Rightarrow> (m1\<lparr>Entries := ReadDirectory fs1 (CurrentPath m1)\<rparr>, fs1))"

definition undoLastAction :: "FileManager \<Rightarrow> filesys \<Rightarrow> FileManager \<times> filesys" where
  "undoLastAction m fs =
     (if length (undoStack m) = 0 then (m, fs)
      else
        let lastAction = last (undoStack m);
            m1 = m\<lparr>undoStack := butlast (undoStack m)\<rparr>
        in if Type lastAction = ''delete'' then
             (if NewPath lastAction \<noteq> [] then undo_move lastAction m1 fs
              else (m1\<lparr>Entries := ReadDirectory fs (CurrentPath m1)\<rparr>, fs))
           else if Type lastAction = ''cut'' then
             (m1\<lparr>clipboard := None, clipboardOp := [],
                 Entries := ReadDirectory fs (CurrentPath m1)\<rparr>, fs)
           else if Type lastAction = ''copy'' then
             (let fs1 = (if NewPath lastAction \<noteq> []
                         then fst (os_RemoveAll fs (NewPath lastAction)) else fs)
              in (m1\<lparr>Entries := ReadDirectory fs1 (CurrentPath m1)\<rparr>, fs1))
           else if Type lastAction = ''move'' then undo_move lastAction m1 fs
           else if Type lastAction = ''rename'' then undo_move lastAction m1 fs
           else (m1\<lparr>Entries := ReadDirectory fs (CurrentPath m1)\<rparr>, fs))"

text \<open>
  The loops that look for an entry (\<^verbatim>\<open>for i, entry := range m.Entries\<close>, leaving at the
  first hit) return the first index at which the test holds.
\<close>

fun first_index :: "('a \<Rightarrow> bool) \<Rightarrow> 'a list \<Rightarrow> nat option" where
  "first_index P [] = None"
| "first_index P (x # xs) =
     (if P x then Some 0 else map_option Suc (first_index P xs))"

definition searchFiles :: "string \<Rightarrow> FileManager \<Rightarrow> FileManager" where
  "searchFiles query m =
     (if query = [] then m
      else case first_index
                  (\<lambda>entry. strings_Contains (strings_ToLower (Name entry)) (strings_ToLower query))
                  (Entries m) of
             None \<Rightarrow> m
           | Some i \<Rightarrow> m\<lparr>Cursor := int i\<rparr>)"

definition renameFile :: "string \<Rightarrow> FileManager \<Rightarrow> filesys \<Rightarrow> fault + (FileManager \<times> filesys)" where
  "renameFile newName m fs =
     (if newName = [] \<or> length (Entries m) = 0 \<or> Cursor m \<ge> int (length (Entries m))
      then Inr (m, fs)
      else case go_index (Entries m) (Cursor m) of
             Inl f \<Rightarrow> Inl f
           | Inr entry \<Rightarrow>
               let newPath = filepath_Join (CurrentPath m) newName in
               if newName \<noteq> Name entry then
                 (case os_Rename fs (Path entry) newPath of
                    None \<Rightarrow> Inr (m, fs)
                  | Some fs1 \<Rightarrow>
                      let undoAction = \<lparr>Type = ''rename'', OldPath = Path entry,
                                        NewPath = newPath, Entry = entry,
                                        OldName = Name entry\<rparr>;
                          m1 = m\<lparr>undoStack := undoStack m @ [undoAction],
                                 Entries := ReadDirectory fs1 (CurrentPath m)\<rparr>
                      in Inr (case first_index (\<lambda>e. Name e = newName) (Entries m1) of
                                None \<Rightarrow> m1
                              | Some i \<Rightarrow> m1\<lparr>Cursor := int i\<rparr>, fs1))
               else Inr (m, fs))"

definition navigateWithZoxide :: "env \<Rightarrow> string \<Rightarrow> FileManager \<Rightarrow> filesys \<Rightarrow> FileManager" where
  "navigateWithZoxide e query m fs =
     (if query = [] then m
      else case zoxide_output e query of
             None \<Rightarrow> m
           | Some output \<Rightarrow>
               let targetPath = strings_TrimSpace output in
               if targetPath = [] then m
               else if os_Stat fs targetPath = Some Dir
               then m\<lparr>CurrentPath := targetPath,
                      Entries := ReadDirectory fs targetPath, Cursor := 0\<rparr>
               else m)"

text \<open>
  Opening a file with the default program starts a process outside; its error is
  ignored and the state stays.
\<close>

definition tryEnterDirectory :: "FileManager \<Rightarrow> filesys \<Rightarrow> fault + FileManager" where
  "tryEnterDirectory m fs =
     (if Cursor m < int (length (Entries m)) then
        (case go_index (Entries m) (Cursor m) of
           Inl f \<Rightarrow> Inl f
         | Inr entry \<Rightarrow>
             if IsDir entry
             then Inr (m\<lparr>CurrentPath := Path entry,
                         Entries := ReadDirectory fs (Path entry), Cursor := 0\<rparr>)
             else Inr m)
      else Inr m)"

section \<open>Update: the dispatch of a message\<close>

text \<open>
  \<^verbatim>\<open>Update\<close> returns the model and a command for the event loop. The three text modes
  come first, in the order of the source; each reads the type of the key only.
\<close>

definition update_search :: "key_type \<Rightarrow> string \<Rightarrow> FileManager \<Rightarrow> FileManager" where
  "update_search ty s m =
     (case ty of
        KeyEnter \<Rightarrow> (searchFiles (searchQuery m) (m\<lparr>searchMode := False\<rparr>))\<lparr>searchQuery := []\<rparr>
      | KeyEsc \<Rightarrow> m\<lparr>searchMode := False, searchQuery := []\<rparr>
      | KeyBackspace \<Rightarrow>
          (if length (searchQuery m) > 0 then m\<lparr>searchQuery := butlast (searchQuery m)\<rparr> else m)
      | _ \<Rightarrow> m\<lparr>searchQuery := searchQuery m @ s\<rparr>)"

definition update_rename ::
  "key_type \<Rightarrow> string \<Rightarrow> FileManager \<Rightarrow> filesys \<Rightarrow> fault + (FileManager \<times> filesys)" where
  "update_rename ty s m fs =
     (case ty of
        KeyEnter \<Rightarrow>
          (case renameFile (renameText m) (m\<lparr>renameMode := False\<rparr>) fs of
             Inl f \<Rightarrow> Inl f
           | Inr (m1, fs1) \<Rightarrow> Inr (m1\<lparr>renameText := []\<rparr>, fs1))
      | KeyEsc \<Rightarrow> Inr (m\<lparr>renameMode := False, renameText := []\<rparr>, fs)
      | KeyBackspace \<Rightarrow>
          Inr (if length (renameText m) > 0 then m\<lparr>renameText := butlast (renameText m)\<rparr>
               else m, fs)
      | _ \<Rightarrow> Inr (m\<lparr>renameText := renameText m @ s\<rparr>, fs))"

definition update_zoxide :: "env \<Rightarrow> key_type \<Rightarrow> string \<Rightarrow> FileManager \<Rightarrow> filesys \<Rightarrow> FileManager" where
  "update_zoxide e ty s m fs =
     (case ty of
        KeyEnter \<Rightarrow>
          (navigateWithZoxide e (zoxideQuery m) (m\<lparr>zoxideMode := False\<rparr>) fs)\<lparr>zoxideQuery := []\<rparr>
      | KeyEsc \<Rightarrow> m\<lparr>zoxideMode := False, zoxideQuery := []\<rparr>
      | KeyBackspace \<Rightarrow>
          (if length (zoxideQuery m) > 0 then m\<lparr>zoxideQuery := butlast (zoxideQuery m)\<rparr> else m)
      | _ \<Rightarrow> m\<lparr>zoxideQuery := zoxideQuery m @ s\<rparr>)"

text \<open>The case \<^verbatim>\<open>"h", "left"\<close> of the normal mode: go to the parent directory.\<close>

definition ascend :: "FileManager \<Rightarrow> filesys \<Rightarrow> FileManager" where
  "ascend m fs =
     (let parent = filepath_Dir (CurrentPath m) in
      if parent \<noteq> CurrentPath m then
        (let currentDir = filepath_Base (CurrentPath m);
             m1 = m\<lparr>CurrentPath := parent, Entries := ReadDirectory fs parent\<rparr>
         in case first_index (\<lambda>entry. Name entry = currentDir) (Entries m1) of
              None \<Rightarrow> m1
            | Some i \<Rightarrow> m1\<lparr>Cursor := int i\<rparr>)
      else m)"

text \<open>The case \<^verbatim>\<open>"D"\<close> of the normal mode.\<close>

definition update_D :: "env \<Rightarrow> FileManager \<Rightarrow> filesys \<Rightarrow> fault + (FileManager \<times> filesys)" where
  "update_D e m fs =
     (if lastCommand m = ''d'' \<and> now e - commandTime m < chord_window then
        (case deleteFile e m fs of
           Inl f \<Rightarrow> Inl f
         | Inr (m1, fs1) \<Rightarrow> Inr (m1\<lparr>lastCommand := []\<rparr>, fs1))
      else
        (case handleDoubleCommand (now e) ''D'' m of
           (True, m1) \<Rightarrow> deleteFile e m1 fs
         | (False, m1) \<Rightarrow> Inr (m1, fs)))"

text \<open>The normal mode: the switch over \<^verbatim>\<open>msg.String()\<close>.\<close>

definition no_cmd :: "fault + (FileManager \<times> filesys) \<Rightarrow> fault + (FileManager \<times> filesys \<times> cmd)" where
  "no_cmd r = (case r of Inl f \<Rightarrow> Inl f | Inr (m, fs) \<Rightarrow> Inr (m, fs, NoCmd))"

definition with_fs :: "filesys \<Rightarrow> fault + FileManager \<Rightarrow> fault + (FileManager \<times> filesys)" where
  "with_fs fs r = (case r of Inl f \<Rightarrow> Inl f | Inr m \<Rightarrow> Inr (m, fs))"

definition update_normal ::
  "env \<Rightarrow> string \<Rightarrow> FileManager \<Rightarrow> filesys \<Rightarrow> fault + (FileManager \<times> filesys \<times> cmd)" where
  "update_normal e s m fs =
     (if s = ''ctrl+c'' \<or> s = ''q'' then Inr (m, fs, Quit)
      else if s = ''up'' \<or> s = ''k'' then
        Inr (if Cursor m > 0 then m\<lparr>Cursor := Cursor m - 1\<rparr> else m, fs, NoCmd)
      else if s = ''down'' \<or> s = ''j'' then
        Inr (if Cursor m < int (length (Entries m)) - 1 then m\<lparr>Cursor := Cursor m + 1\<rparr> else m,
             fs, NoCmd)
      else if s = ''l'' \<or> s = ''enter'' \<or> s = ''right'' then
        no_cmd (with_fs fs (tryEnterDirectory m fs))
      else if s = ''h'' \<or> s = ''left'' then Inr (ascend m fs, fs, NoCmd)
      else if s = ''d'' then
        (case handleDoubleCommand (now e) ''d'' m of
           (True, m1) \<Rightarrow> no_cmd (with_fs fs (cutFile m1))
         | (False, m1) \<Rightarrow> Inr (m1, fs, NoCmd))
      else if s = ''D'' then no_cmd (update_D e m fs)
      else if s = ''y'' then
        (case handleDoubleCommand (now e) ''y'' m of
           (True, m1) \<Rightarrow> no_cmd (with_fs fs (copyFile m1))
         | (False, m1) \<Rightarrow> Inr (m1, fs, NoCmd))
      else if s = ''p'' then
        (case handleDoubleCommand (now e) ''p'' m of
           (True, m1) \<Rightarrow> no_cmd (pasteFile e m1 fs)
         | (False, m1) \<Rightarrow> Inr (m1, fs, NoCmd))
      else if s = ''/'' then Inr (m\<lparr>searchMode := True, searchQuery := []\<rparr>, fs, NoCmd)
      else if s = ''a'' then
        (if length (Entries m) > 0 \<and> Cursor m < int (length (Entries m)) then
           (case go_index (Entries m) (Cursor m) of
              Inl f \<Rightarrow> Inl f
            | Inr entry \<Rightarrow> Inr (m\<lparr>renameMode := True, renameText := Name entry\<rparr>, fs, NoCmd))
         else Inr (m, fs, NoCmd))
      else if s = ''z'' then Inr (m\<lparr>zoxideMode := True, zoxideQuery := []\<rparr>, fs, NoCmd)
      else if s = ''g'' then
        (case handleDoubleCommand (now e) ''g'' m of
           (True, m1) \<Rightarrow> Inr (m1\<lparr>Cursor := 0\<rparr>, fs, NoCmd)
         | (False, m1) \<Rightarrow> Inr (m1, fs, NoCmd))
      else if s = ''G'' then Inr (m\<lparr>Cursor := int (length (Entries m)) - 1\<rparr>, fs, NoCmd)
      else if s = ''u'' then no_cmd (Inr (undoLastAction m fs))
      else if s = ''S'' then Inr (m, fs, ExecShell (CurrentPath m))
      else if s = ''?'' then Inr (m\<lparr>showWhichKey := \<not> showWhichKey m\<rparr>, fs, NoCmd)
      else Inr (m, fs, NoCmd))"

definition Update ::
  "env \<Rightarrow> msg \<Rightarrow> FileManager \<Rightarrow> filesys \<Rightarrow> fault + (FileManager \<times> filesys \<times> cmd)" where
  "Update e message m fs =
     (case message of
        ReloadDirectoryMsg \<Rightarrow> Inr (m\<lparr>Entries := ReadDirectory fs (CurrentPath m)\<rparr>, fs, NoCmd)
      | KeyMsg ty s \<Rightarrow>
          if searchMode m then Inr (update_search ty s m, fs, NoCmd)
          else if renameMode m then no_cmd (update_rename ty s m fs)
          else if zoxideMode m then Inr (update_zoxide e ty s m fs, fs, NoCmd)
          else update_normal e s m fs
      | WindowSizeMsg w h \<Rightarrow> Inr (m\<lparr>Width := w, Height := h\<rparr>, fs, NoCmd)
      | OtherMsg \<Rightarrow> Inr (m, fs, NoCmd))"

section \<open>Running the program\<close>

text \<open>
  A sequence of events, each with what the handler reads from outside while it runs; a
  sample file system and a sample state of the file manager in \<^verbatim>\<open>/home\<close>, used to
  evaluate the program on concrete inputs.
\<close>


definition ex_fs :: filesys where
  "ex_fs = \<lparr>nodes =
       [([], Dir), ([''tmp''], Dir), ([''home''], Dir),
        ([''home'', ''a.txt''], File ''A''),
        ([''home'', ''b''], Dir),
        ([''home'', ''b'', ''c.txt''], File ''C''),
        ([''home'', ''c.txt''], File ''CC''),
        ([''home'', ''.hid''], Dir),
        ([''home'', ''.hid'', ''x''], File ''X''),
        ([''home'', ''.hid'', ''y''], File ''Y'')],
     readonly = []\<rparr>"

definition ex_model :: FileManager where
  "ex_model = \<lparr>CurrentPath = ''/home'', Entries = ReadDirectory ex_fs ''/home'', Cursor = 1,
     Width = 80, Height = 24, clipboard = None, clipboardOp = [], searchMode = False,
     searchQuery = [], renameMode = False, renameText = [], zoxideMode = False,
     zoxideQuery = [], lastCommand = [], commandTime = 0, showWhichKey = False,
     undoStack = [], trashDir = []\<rparr>"

definition at_time :: "int \<Rightarrow> env" where
  "at_time t = \<lparr>now = t, mktemp_random = ''123'', zoxide_output = (\<lambda>q. None), copy_fuel = 10\<rparr>"

fun run_events :: "(env \<times> msg) list \<Rightarrow> FileManager \<Rightarrow> filesys \<Rightarrow> fault + (FileManager \<times> filesys)" where
  "run_events [] m fs = Inr (m, fs)"
| "run_events ((e, x) # evs) m fs =
     (case Update e x m fs of Inl f \<Rightarrow> Inl f | Inr (m1, fs1, c) \<Rightarrow> run_events evs m1 fs1)"

definition normal_mode :: "FileManager \<Rightarrow> bool" where
  "normal_mode m = (\<not> searchMode m \<and> \<not> renameMode m \<and> \<not> zoxideMode m)"


section \<open>The normal mode, key by key\<close>

lemma Update_normal: "normal_mode m \<Longrightarrow> Update e (KeyMsg ty s) m fs = update_normal e s m fs"
  by (simp add: Update_def normal_mode_def)


text \<open>
  The switch of the normal mode compares the key with 23 literals: \<open>chord_keys\<close> are
  those that go through the chord recogniser, \<open>mode_keys\<close> those that open a text
  mode (search, rename, jump), \<open>plain_keys\<close> the rest. The lemmas give the branch of
  each, and the default branch for every other key.
\<close>

lemma no_cmd_Inr [simp]: "no_cmd r = Inr (m', fs', c) \<longleftrightarrow> r = Inr (m', fs') \<and> c = NoCmd"
  by (auto simp: no_cmd_def split: sum.splits)

lemma with_fs_Inr [simp]: "with_fs fs r = Inr (m', fs') \<longleftrightarrow> r = Inr m' \<and> fs' = fs"
  by (auto simp: with_fs_def split: sum.splits)

definition chord_keys :: "string list" where
  "chord_keys = [''d'', ''D'', ''y'', ''p'', ''g'']"

definition plain_keys :: "string list" where
  "plain_keys = [''ctrl+c'', ''q'', ''up'', ''k'', ''down'', ''j'', ''l'', ''enter'', ''right'',
     ''h'', ''left'', ''G'', ''u'', ''S'', ''?'']"

definition mode_keys :: "string list" where
  "mode_keys = [''/'', ''a'', ''z'']"

definition other_keys :: "string list" where
  "other_keys = plain_keys @ mode_keys"

definition known_keys :: "string list" where
  "known_keys = other_keys @ chord_keys"

lemma update_normal_other:
  "s \<notin> set known_keys \<Longrightarrow> update_normal e s m fs = Inr (m, fs, NoCmd)"
  by (simp add: update_normal_def known_keys_def other_keys_def plain_keys_def mode_keys_def chord_keys_def)

lemma update_normal_keys:
  "update_normal e ''ctrl+c'' m fs = Inr (m, fs, Quit)"
  "update_normal e ''q'' m fs = Inr (m, fs, Quit)"
  "update_normal e ''up'' m fs =
     Inr (if Cursor m > 0 then m\<lparr>Cursor := Cursor m - 1\<rparr> else m, fs, NoCmd)"
  "update_normal e ''k'' m fs =
     Inr (if Cursor m > 0 then m\<lparr>Cursor := Cursor m - 1\<rparr> else m, fs, NoCmd)"
  "update_normal e ''down'' m fs =
     Inr (if Cursor m < int (length (Entries m)) - 1 then m\<lparr>Cursor := Cursor m + 1\<rparr> else m,
          fs, NoCmd)"
  "update_normal e ''j'' m fs =
     Inr (if Cursor m < int (length (Entries m)) - 1 then m\<lparr>Cursor := Cursor m + 1\<rparr> else m,
          fs, NoCmd)"
  "update_normal e ''l'' m fs = no_cmd (with_fs fs (tryEnterDirectory m fs))"
  "update_normal e ''enter'' m fs = no_cmd (with_fs fs (tryEnterDirectory m fs))"
  "update_normal e ''right'' m fs = no_cmd (with_fs fs (tryEnterDirectory m fs))"
  "update_normal e ''h'' m fs = Inr (ascend m fs, fs, NoCmd)"
  "update_normal e ''left'' m fs = Inr (ascend m fs, fs, NoCmd)"
  "update_normal e ''d'' m fs =
     (case handleDoubleCommand (now e) ''d'' m of
        (True, m1) \<Rightarrow> no_cmd (with_fs fs (cutFile m1))
      | (False, m1) \<Rightarrow> Inr (m1, fs, NoCmd))"
  "update_normal e ''D'' m fs = no_cmd (update_D e m fs)"
  "update_normal e ''y'' m fs =
     (case handleDoubleCommand (now e) ''y'' m of
        (True, m1) \<Rightarrow> no_cmd (with_fs fs (copyFile m1))
      | (False, m1) \<Rightarrow> Inr (m1, fs, NoCmd))"
  "update_normal e ''p'' m fs =
     (case handleDoubleCommand (now e) ''p'' m of
        (True, m1) \<Rightarrow> no_cmd (pasteFile e m1 fs)
      | (False, m1) \<Rightarrow> Inr (m1, fs, NoCmd))"
  "update_normal e ''/'' m fs = Inr (m\<lparr>searchMode := True, searchQuery := []\<rparr>, fs, NoCmd)"
  "update_normal e ''a'' m fs =
     (if length (Entries m) > 0 \<and> Cursor m < int (length (Entries m)) then
        (case go_index (Entries m) (Cursor m) of
           Inl f \<Rightarrow> Inl f
         | Inr entry \<Rightarrow> Inr (m\<lparr>renameMode := True, renameText := Name entry\<rparr>, fs, NoCmd))
      else Inr (m, fs, NoCmd))"
  "update_normal e ''z'' m fs = Inr (m\<lparr>zoxideMode := True, zoxideQuery := []\<rparr>, fs, NoCmd)"
  "update_normal e ''g'' m fs =
     (case handleDoubleCommand (now e) ''g'' m of
        (True, m1) \<Rightarrow> Inr (m1\<lparr>Cursor := 0\<rparr>, fs, NoCmd)
      | (False, m1) \<Rightarrow> Inr (m1, fs, NoCmd))"
  "update_normal e ''G'' m fs = Inr (m\<lparr>Cursor := int (length (Entries m)) - 1\<rparr>, fs, NoCmd)"
  "update_normal e ''u'' m fs = no_cmd (Inr (undoLastAction m fs))"
  "update_normal e ''S'' m fs = Inr (m, fs, ExecShell (CurrentPath m))"
  "update_normal e ''?'' m fs = Inr (m\<lparr>showWhichKey := \<not> showWhichKey m\<rparr>, fs, NoCmd)"
  by (simp_all add: update_normal_def)



section \<open>What the operations leave alone\<close>

text \<open>
  The pending chord key and its time are written by the chord recogniser and by the case
  D of the normal mode only; the flags of the three text modes are written by
  \<^verbatim>\<open>Update\<close> only. No file operation touches either.
\<close>

lemma cutFile_pending:
  "cutFile m = Inr m' \<Longrightarrow> lastCommand m' = lastCommand m \<and> commandTime m' = commandTime m"
  by (auto simp: cutFile_def Let_def clamp_cursor_def split: if_splits sum.splits)

lemma copyFile_pending:
  "copyFile m = Inr m' \<Longrightarrow> lastCommand m' = lastCommand m \<and> commandTime m' = commandTime m"
  by (auto simp: copyFile_def split: if_splits sum.splits)

lemma deleteFile_pending:
  "deleteFile e m fs = Inr (m', fs') \<Longrightarrow>
     lastCommand m' = lastCommand m \<and> commandTime m' = commandTime m"
  by (auto simp: deleteFile_def Let_def clamp_cursor_def
           split: if_splits sum.splits option.splits prod.splits)

lemma pasteFile_pending:
  "pasteFile e m fs = Inr (m', fs') \<Longrightarrow>
     lastCommand m' = lastCommand m \<and> commandTime m' = commandTime m"
  by (auto simp: pasteFile_def Let_def split: if_splits sum.splits option.splits prod.splits)

lemma undoLastAction_pending:
  "undoLastAction m fs = (m', fs') \<Longrightarrow>
     lastCommand m' = lastCommand m \<and> commandTime m' = commandTime m"
  by (auto simp: undoLastAction_def undo_move_def Let_def split: if_splits option.splits)

lemma searchFiles_pending:
  "lastCommand (searchFiles q m) = lastCommand m \<and> commandTime (searchFiles q m) = commandTime m"
  by (auto simp: searchFiles_def split: option.splits)

lemma renameFile_pending:
  "renameFile n m fs = Inr (m', fs') \<Longrightarrow>
     lastCommand m' = lastCommand m \<and> commandTime m' = commandTime m"
  by (auto simp: renameFile_def Let_def split: if_splits sum.splits option.splits)

lemma navigateWithZoxide_pending:
  "lastCommand (navigateWithZoxide e q m fs) = lastCommand m
   \<and> commandTime (navigateWithZoxide e q m fs) = commandTime m"
  by (auto simp: navigateWithZoxide_def Let_def split: option.splits)

lemma tryEnterDirectory_pending:
  "tryEnterDirectory m fs = Inr m' \<Longrightarrow>
     lastCommand m' = lastCommand m \<and> commandTime m' = commandTime m"
  by (auto simp: tryEnterDirectory_def split: if_splits sum.splits)

lemma ascend_pending:
  "lastCommand (ascend m fs) = lastCommand m \<and> commandTime (ascend m fs) = commandTime m"
  by (auto simp: ascend_def Let_def split: option.splits)

lemma update_search_pending:
  "lastCommand (update_search ty s m) = lastCommand m
   \<and> commandTime (update_search ty s m) = commandTime m"
  by (cases ty) (auto simp: update_search_def searchFiles_def split: option.splits)

lemma update_rename_pending:
  "update_rename ty s m fs = Inr (m', fs') \<Longrightarrow>
     lastCommand m' = lastCommand m \<and> commandTime m' = commandTime m"
  by (cases ty) (auto simp: update_rename_def split: sum.splits if_splits dest!: renameFile_pending)

lemma update_zoxide_pending:
  "lastCommand (update_zoxide e ty s m fs) = lastCommand m
   \<and> commandTime (update_zoxide e ty s m fs) = commandTime m"
  by (cases ty) (auto simp: update_zoxide_def navigateWithZoxide_def Let_def split: option.splits)

lemma update_normal_pending_chord:
  assumes "update_normal e s m fs = Inr (m', fs', c)" and "s \<in> set chord_keys"
  shows "(lastCommand m' = [] \<and> commandTime m' = commandTime m)
         \<or> (lastCommand m' = s \<and> commandTime m' = now e)"
  using assms unfolding chord_keys_def
  by (auto simp: update_normal_keys update_D_def handleDoubleCommand_def
           split: sum.splits if_splits prod.splits
           dest!: cutFile_pending copyFile_pending pasteFile_pending deleteFile_pending)

lemma update_normal_pending_other_keys:
  assumes "update_normal e s m fs = Inr (m', fs', c)" and "s \<in> set other_keys"
  shows "lastCommand m' = lastCommand m \<and> commandTime m' = commandTime m"
  using assms unfolding other_keys_def plain_keys_def mode_keys_def
  by (auto simp: update_normal_keys ascend_pending
           split: sum.splits if_splits
           dest!: tryEnterDirectory_pending undoLastAction_pending)

lemma update_normal_pending_other:
  assumes "update_normal e s m fs = Inr (m', fs', c)" and "s \<notin> set chord_keys"
  shows "lastCommand m' = lastCommand m \<and> commandTime m' = commandTime m"
proof (cases "s \<in> set known_keys")
  case False
  with assms show ?thesis by (simp add: update_normal_other)
next
  case True
  with assms(2) have "s \<in> set other_keys" by (simp add: known_keys_def)
  with assms(1) show ?thesis by (rule update_normal_pending_other_keys)
qed

text \<open>\<open>same_flags\<close>: the flags of the text modes are the same in both states.\<close>

definition same_flags :: "FileManager \<Rightarrow> FileManager \<Rightarrow> bool" where
  "same_flags m m' = (searchMode m' = searchMode m \<and> renameMode m' = renameMode m
                      \<and> zoxideMode m' = zoxideMode m)"

lemma same_flags_refl [simp]: "same_flags m m"
  by (simp add: same_flags_def)

lemma cutFile_flags: "cutFile m = Inr m' \<Longrightarrow> same_flags m m'"
  by (auto simp: same_flags_def cutFile_def Let_def clamp_cursor_def split: if_splits sum.splits)

lemma copyFile_flags: "copyFile m = Inr m' \<Longrightarrow> same_flags m m'"
  by (auto simp: same_flags_def copyFile_def split: if_splits sum.splits)

lemma deleteFile_flags: "deleteFile e m fs = Inr (m', fs') \<Longrightarrow> same_flags m m'"
  by (auto simp: same_flags_def deleteFile_def Let_def clamp_cursor_def
           split: if_splits sum.splits option.splits prod.splits)

lemma pasteFile_flags: "pasteFile e m fs = Inr (m', fs') \<Longrightarrow> same_flags m m'"
  by (auto simp: same_flags_def pasteFile_def Let_def
           split: if_splits sum.splits option.splits prod.splits)

lemma undoLastAction_flags: "undoLastAction m fs = (m', fs') \<Longrightarrow> same_flags m m'"
  by (auto simp: same_flags_def undoLastAction_def undo_move_def Let_def
           split: if_splits option.splits)

lemma tryEnterDirectory_flags: "tryEnterDirectory m fs = Inr m' \<Longrightarrow> same_flags m m'"
  by (auto simp: same_flags_def tryEnterDirectory_def split: if_splits sum.splits)

lemma ascend_flags: "same_flags m (ascend m fs)"
  by (auto simp: same_flags_def ascend_def Let_def split: option.splits)

lemma update_D_flags: "update_D e m fs = Inr (m', fs') \<Longrightarrow> same_flags m m'"
  by (auto simp: update_D_def handleDoubleCommand_def same_flags_def
           split: if_splits sum.splits prod.splits dest!: deleteFile_flags)


section \<open>The chord keys in the normal mode\<close>

text \<open>
  \<open>chord_command\<close> is the command that a chord key runs when its chord resolves: the
  bodies of the cases d, D, y, p and g of the normal mode. \<open>chord_fires\<close> is the test
  under which \<^verbatim>\<open>Update\<close> runs it: the key is the pending key, or the key is D and the
  pending key is d, and the pending time is less than 500 ms back.
\<close>

definition chord_command ::
  "string \<Rightarrow> env \<Rightarrow> FileManager \<Rightarrow> filesys \<Rightarrow> fault + (FileManager \<times> filesys)" where
  "chord_command k e m fs =
     (if k = ''d'' then with_fs fs (cutFile m)
      else if k = ''D'' then deleteFile e m fs
      else if k = ''y'' then with_fs fs (copyFile m)
      else if k = ''p'' then pasteFile e m fs
      else if k = ''g'' then Inr (m\<lparr>Cursor := 0\<rparr>, fs)
      else Inr (m, fs))"

definition chord_fires :: "string \<Rightarrow> int \<Rightarrow> FileManager \<Rightarrow> bool" where
  "chord_fires k t m =
     ((lastCommand m = k \<or> (k = ''D'' \<and> lastCommand m = ''d'')) \<and> t - commandTime m < chord_window)"

lemma deleteFile_lastCommand:
  "deleteFile e (m\<lparr>lastCommand := x\<rparr>) fs =
     (case deleteFile e m fs of Inl f \<Rightarrow> Inl f | Inr (m1, fs1) \<Rightarrow> Inr (m1\<lparr>lastCommand := x\<rparr>, fs1))"
  by (auto simp: deleteFile_def Let_def clamp_cursor_def
           split: sum.splits option.splits prod.splits)

lemma Update_chord_key:
  assumes "normal_mode m" and "k \<in> set chord_keys"
  shows "Update e (KeyMsg ty k) m fs =
           (if chord_fires k (now e) m
            then no_cmd (chord_command k e (m\<lparr>lastCommand := []\<rparr>) fs)
            else Inr (m\<lparr>lastCommand := k, commandTime := now e\<rparr>, fs, NoCmd))"
proof -
  have d: "Update e (KeyMsg ty ''d'') m fs =
           (if chord_fires ''d'' (now e) m
            then no_cmd (chord_command ''d'' e (m\<lparr>lastCommand := []\<rparr>) fs)
            else Inr (m\<lparr>lastCommand := ''d'', commandTime := now e\<rparr>, fs, NoCmd))"
    using assms(1)
    by (auto simp: Update_normal update_normal_keys handleDoubleCommand_def chord_fires_def
          chord_command_def)
  have y: "Update e (KeyMsg ty ''y'') m fs =
           (if chord_fires ''y'' (now e) m
            then no_cmd (chord_command ''y'' e (m\<lparr>lastCommand := []\<rparr>) fs)
            else Inr (m\<lparr>lastCommand := ''y'', commandTime := now e\<rparr>, fs, NoCmd))"
    using assms(1)
    by (auto simp: Update_normal update_normal_keys handleDoubleCommand_def chord_fires_def
          chord_command_def)
  have p: "Update e (KeyMsg ty ''p'') m fs =
           (if chord_fires ''p'' (now e) m
            then no_cmd (chord_command ''p'' e (m\<lparr>lastCommand := []\<rparr>) fs)
            else Inr (m\<lparr>lastCommand := ''p'', commandTime := now e\<rparr>, fs, NoCmd))"
    using assms(1)
    by (auto simp: Update_normal update_normal_keys handleDoubleCommand_def chord_fires_def
          chord_command_def)
  have g: "Update e (KeyMsg ty ''g'') m fs =
           (if chord_fires ''g'' (now e) m
            then no_cmd (chord_command ''g'' e (m\<lparr>lastCommand := []\<rparr>) fs)
            else Inr (m\<lparr>lastCommand := ''g'', commandTime := now e\<rparr>, fs, NoCmd))"
    using assms(1)
    by (auto simp: Update_normal update_normal_keys handleDoubleCommand_def chord_fires_def
          chord_command_def no_cmd_def)
  have D: "Update e (KeyMsg ty ''D'') m fs =
           (if chord_fires ''D'' (now e) m
            then no_cmd (chord_command ''D'' e (m\<lparr>lastCommand := []\<rparr>) fs)
            else Inr (m\<lparr>lastCommand := ''D'', commandTime := now e\<rparr>, fs, NoCmd))"
    using assms(1)
    by (auto simp: Update_normal update_normal_keys update_D_def handleDoubleCommand_def
          chord_fires_def chord_command_def deleteFile_lastCommand no_cmd_def
          split: sum.splits)
  from assms(2) d y p g D show ?thesis by (auto simp: chord_keys_def)
qed

lemma chord_command_pending:
  assumes "chord_command k e m fs = Inr (m', fs')"
  shows "lastCommand m' = lastCommand m \<and> commandTime m' = commandTime m"
  using assms
  by (auto simp: chord_command_def split: if_splits
           dest!: cutFile_pending copyFile_pending pasteFile_pending deleteFile_pending)

lemma chord_command_flags:
  assumes "chord_command k e m fs = Inr (m', fs')"
  shows "same_flags m m'"
  using assms
  by (auto simp: chord_command_def split: if_splits
           dest!: cutFile_flags copyFile_flags pasteFile_flags deleteFile_flags)
     (simp add: same_flags_def)

lemma chord_key_nonempty: "k \<in> set chord_keys \<Longrightarrow> k \<noteq> [] \<and> (''d''::string) \<noteq> []"
  by (auto simp: chord_keys_def)

lemma Update_after_chord:
  assumes nm: "normal_mode m" and k: "k \<in> set chord_keys"
    and c: "chord_command k e (m\<lparr>lastCommand := []\<rparr>) fs = Inr (m', fs')"
  shows "lastCommand m' = [] \<and> normal_mode m'
         \<and> Update e' (KeyMsg ty' k) m' fs' =
             Inr (m'\<lparr>lastCommand := k, commandTime := now e'\<rparr>, fs', NoCmd)"
proof -
  from chord_command_pending[OF c] have l: "lastCommand m' = []" by simp
  from chord_command_flags[OF c] nm have n: "normal_mode m'"
    by (simp add: same_flags_def normal_mode_def)
  from l chord_key_nonempty[OF k] have "\<not> chord_fires k (now e') m'"
    by (auto simp: chord_fires_def)
  with Update_chord_key[OF n k, of e' ty' fs'] l n show ?thesis by simp
qed

section \<open>The chord recogniser: C4\<close>

text \<open>
  C4 fails on the code as it is stated. In the sample session the keys d, D, D, D come
  100 ms apart. The first D finds d pending, which is not the key D, and deletes the
  entry under the cursor all the same; the second D becomes pending; the third D resolves
  the chord DD and deletes again. So a key fires while it is not the pending key, and
  three rapid presses of D delete two entries.
\<close>

theorem delete_chord_fires_twice:
  "map_sum id (\<lambda>(m, fs). (map Name (Entries m), map Type (undoStack m), map OldPath (undoStack m)))
     (run_events [(at_time 0, KeyMsg KeyRunes ''d''),
                  (at_time 100000000, KeyMsg KeyRunes ''D'')] ex_model ex_fs)
   = Inr ([''b'', ''c.txt''], [''delete''], [''/home/a.txt''])
   \<and> map_sum id (\<lambda>(m, fs). (map Name (Entries m), map Type (undoStack m), map OldPath (undoStack m)))
     (run_events [(at_time 0, KeyMsg KeyRunes ''d''),
                  (at_time 100000000, KeyMsg KeyRunes ''D''),
                  (at_time 200000000, KeyMsg KeyRunes ''D''),
                  (at_time 300000000, KeyMsg KeyRunes ''D'')] ex_model ex_fs)
   = Inr ([''b''], [''delete'', ''delete''], [''/home/a.txt'', ''/home/c.txt''])"
  by code_simp

text \<open>
  C4, amended. The recogniser \<^verbatim>\<open>handleDoubleCommand\<close> resolves exactly when the key is
  the pending key and comes less than 500 ms (500000000 ns) after the pending time; a
  resolution clears the pending key, a key that does not resolve becomes the pending
  key. In the normal mode each of the chord keys d, D, y, p and g runs its command
  exactly when it is the pending key, or when it is D and the pending key is d, in both
  cases less than 500 ms after the pending time; otherwise it only becomes the pending
  key. The command runs on the state with the pending key cleared and leaves it cleared,
  so the next press of the same key, whenever it comes, runs nothing and becomes
  pending. Of three presses of one chord key, the first from a state in which it does
  not fire and the second less than 500 ms after the first, the second runs the command
  and the first and the third run nothing.
\<close>

theorem chord_resolution:
  "(fst (handleDoubleCommand t c m) \<longleftrightarrow> c = lastCommand m \<and> t - commandTime m < 500000000)
   \<and> (fst (handleDoubleCommand t c m) \<longrightarrow>
        snd (handleDoubleCommand t c m) = m\<lparr>lastCommand := []\<rparr>)
   \<and> (\<not> fst (handleDoubleCommand t c m) \<longrightarrow>
        snd (handleDoubleCommand t c m) = m\<lparr>lastCommand := c, commandTime := t\<rparr>)
   \<and> (normal_mode m \<and> k \<in> set chord_keys \<longrightarrow>
        Update e (KeyMsg ty k) m fs =
          (if (lastCommand m = k \<or> k = ''D'' \<and> lastCommand m = ''d'')
              \<and> now e - commandTime m < 500000000
           then no_cmd (chord_command k e (m\<lparr>lastCommand := []\<rparr>) fs)
           else Inr (m\<lparr>lastCommand := k, commandTime := now e\<rparr>, fs, NoCmd)))
   \<and> (normal_mode m \<and> k \<in> set chord_keys
        \<and> chord_command k e (m\<lparr>lastCommand := []\<rparr>) fs = Inr (m', fs') \<longrightarrow>
        lastCommand m' = [] \<and> normal_mode m'
        \<and> Update e' (KeyMsg ty' k) m' fs' =
            Inr (m'\<lparr>lastCommand := k, commandTime := now e'\<rparr>, fs', NoCmd))
   \<and> (normal_mode m \<and> k \<in> set chord_keys
        \<and> \<not> ((lastCommand m = k \<or> k = ''D'' \<and> lastCommand m = ''d'')
              \<and> now e1 - commandTime m < 500000000)
        \<and> now e2 - now e1 < 500000000 \<longrightarrow>
        Update e1 (KeyMsg ty1 k) m fs =
          Inr (m\<lparr>lastCommand := k, commandTime := now e1\<rparr>, fs, NoCmd)
        \<and> Update e2 (KeyMsg ty2 k) (m\<lparr>lastCommand := k, commandTime := now e1\<rparr>) fs =
            no_cmd (chord_command k e2 (m\<lparr>commandTime := now e1, lastCommand := []\<rparr>) fs)
        \<and> (chord_command k e2 (m\<lparr>commandTime := now e1, lastCommand := []\<rparr>) fs
              = Inr (m2, fs2) \<longrightarrow>
            Update e3 (KeyMsg ty3 k) m2 fs2 =
              Inr (m2\<lparr>lastCommand := k, commandTime := now e3\<rparr>, fs2, NoCmd)))"
proof -
  have a: "fst (handleDoubleCommand t c m) \<longleftrightarrow> c = lastCommand m \<and> t - commandTime m < 500000000"
    by (simp add: handleDoubleCommand_def chord_window_def)
  have b: "fst (handleDoubleCommand t c m) \<longrightarrow>
        snd (handleDoubleCommand t c m) = m\<lparr>lastCommand := []\<rparr>"
    by (simp add: handleDoubleCommand_def)
  have c: "\<not> fst (handleDoubleCommand t c m) \<longrightarrow>
        snd (handleDoubleCommand t c m) = m\<lparr>lastCommand := c, commandTime := t\<rparr>"
    by (simp add: handleDoubleCommand_def)
  have d: "Update e (KeyMsg ty k) m fs =
          (if (lastCommand m = k \<or> k = ''D'' \<and> lastCommand m = ''d'')
              \<and> now e - commandTime m < 500000000
           then no_cmd (chord_command k e (m\<lparr>lastCommand := []\<rparr>) fs)
           else Inr (m\<lparr>lastCommand := k, commandTime := now e\<rparr>, fs, NoCmd))"
    if "normal_mode m" and "k \<in> set chord_keys" for m e ty fs
    using Update_chord_key[OF that, of e ty fs] by (simp add: chord_fires_def chord_window_def)
  have f: "lastCommand m' = [] \<and> normal_mode m'
        \<and> Update e' (KeyMsg ty' k) m' fs' =
            Inr (m'\<lparr>lastCommand := k, commandTime := now e'\<rparr>, fs', NoCmd)"
    if "normal_mode m" and "k \<in> set chord_keys"
      and "chord_command k e (m\<lparr>lastCommand := []\<rparr>) fs = Inr (m', fs')"
    using that by (rule Update_after_chord)
  have g: "Update e1 (KeyMsg ty1 k) m fs =
          Inr (m\<lparr>lastCommand := k, commandTime := now e1\<rparr>, fs, NoCmd)
        \<and> Update e2 (KeyMsg ty2 k) (m\<lparr>lastCommand := k, commandTime := now e1\<rparr>) fs =
            no_cmd (chord_command k e2 (m\<lparr>commandTime := now e1, lastCommand := []\<rparr>) fs)
        \<and> (chord_command k e2 (m\<lparr>commandTime := now e1, lastCommand := []\<rparr>) fs
              = Inr (m2, fs2) \<longrightarrow>
            Update e3 (KeyMsg ty3 k) m2 fs2 =
              Inr (m2\<lparr>lastCommand := k, commandTime := now e3\<rparr>, fs2, NoCmd))"
    if nm: "normal_mode m" and k: "k \<in> set chord_keys"
      and nf: "\<not> ((lastCommand m = k \<or> k = ''D'' \<and> lastCommand m = ''d'')
              \<and> now e1 - commandTime m < 500000000)"
      and w: "now e2 - now e1 < 500000000"
  proof -
    let ?m1 = "m\<lparr>lastCommand := k, commandTime := now e1\<rparr>"
    have n1: "normal_mode ?m1" using nm by (simp add: normal_mode_def)
    have s1: "Update e1 (KeyMsg ty1 k) m fs = Inr (?m1, fs, NoCmd)"
      using d[OF nm k, of e1 ty1 fs] nf by simp
    have s2: "Update e2 (KeyMsg ty2 k) ?m1 fs =
            no_cmd (chord_command k e2 (m\<lparr>commandTime := now e1, lastCommand := []\<rparr>) fs)"
      using d[OF n1 k, of e2 ty2 fs] w by simp
    have s3: "Update e3 (KeyMsg ty3 k) m2 fs2 =
              Inr (m2\<lparr>lastCommand := k, commandTime := now e3\<rparr>, fs2, NoCmd)"
      if r: "chord_command k e2 (m\<lparr>commandTime := now e1, lastCommand := []\<rparr>) fs = Inr (m2, fs2)"
    proof -
      from r have "chord_command k e2 (?m1\<lparr>lastCommand := []\<rparr>) fs = Inr (m2, fs2)" by simp
      from Update_after_chord[OF n1 k this, of e3 ty3] show ?thesis by simp
    qed
    from s1 s2 s3 show ?thesis by blast
  qed
  from a b c d[of m e ty fs] f g show ?thesis by blast
qed

theorem chord_resolution_witness:
  "normal_mode ex_model \<and> ''D'' \<in> set chord_keys
   \<and> \<not> ((lastCommand ex_model = ''D'' \<or> ''D'' = ''D'' \<and> lastCommand ex_model = ''d'')
         \<and> now (at_time 0) - commandTime ex_model < 500000000)
   \<and> now (at_time 100000000) - now (at_time 0) < 500000000
   \<and> Update (at_time 0) (KeyMsg KeyRunes ''D'') ex_model ex_fs =
        Inr (ex_model\<lparr>lastCommand := ''D'', commandTime := 0\<rparr>, ex_fs, NoCmd)
   \<and> (\<exists>m2 fs2.
        Update (at_time 100000000) (KeyMsg KeyRunes ''D'')
          (ex_model\<lparr>lastCommand := ''D'', commandTime := 0\<rparr>) ex_fs = Inr (m2, fs2, NoCmd)
        \<and> map OldPath (undoStack m2) = [''/home/a.txt'']
        \<and> Update (at_time 200000000) (KeyMsg KeyRunes ''D'') m2 fs2 =
            Inr (m2\<lparr>lastCommand := ''D'', commandTime := 200000000\<rparr>, fs2, NoCmd))"
proof -
  have h: "normal_mode ex_model" "''D'' \<in> set chord_keys"
    "\<not> ((lastCommand ex_model = ''D'' \<or> ''D'' = ''D'' \<and> lastCommand ex_model = ''d'')
         \<and> now (at_time 0) - commandTime ex_model < 500000000)"
    "now (at_time 100000000) - now (at_time 0) < 500000000"
    by (simp_all add: normal_mode_def ex_model_def chord_keys_def at_time_def)
  have "map_sum id (\<lambda>(m, fs). map OldPath (undoStack m))
          (chord_command ''D'' (at_time 100000000)
             (ex_model\<lparr>commandTime := now (at_time 0), lastCommand := []\<rparr>) ex_fs)
        = Inr [''/home/a.txt'']"
    by code_simp
  then obtain m2 fs2
    where r: "chord_command ''D'' (at_time 100000000)
                (ex_model\<lparr>commandTime := now (at_time 0), lastCommand := []\<rparr>) ex_fs = Inr (m2, fs2)"
      and u: "map OldPath (undoStack m2) = [''/home/a.txt'']"
    by (cases "chord_command ''D'' (at_time 100000000)
                (ex_model\<lparr>commandTime := now (at_time 0), lastCommand := []\<rparr>) ex_fs") auto
  note six = chord_resolution[where m = ex_model and k = "''D''" and fs = ex_fs
        and ?e1.0 = "at_time 0" and ?e2.0 = "at_time 100000000" and ?e3.0 = "at_time 200000000"
        and ?ty1.0 = KeyRunes and ?ty2.0 = KeyRunes and ?ty3.0 = KeyRunes
        and ?m2.0 = m2 and ?fs2.0 = fs2,
        THEN conjunct2, THEN conjunct2, THEN conjunct2, THEN conjunct2, THEN conjunct2]
  from h have hyp: "normal_mode ex_model \<and> ''D'' \<in> set chord_keys
        \<and> \<not> ((lastCommand ex_model = ''D'' \<or> ''D'' = ''D'' \<and> lastCommand ex_model = ''d'')
              \<and> now (at_time 0) - commandTime ex_model < 500000000)
        \<and> now (at_time 100000000) - now (at_time 0) < 500000000"
    by blast
  from mp[OF six hyp] r
  have s: "Update (at_time 0) (KeyMsg KeyRunes ''D'') ex_model ex_fs =
          Inr (ex_model\<lparr>lastCommand := ''D'', commandTime := now (at_time 0)\<rparr>, ex_fs, NoCmd)"
    "Update (at_time 100000000) (KeyMsg KeyRunes ''D'')
       (ex_model\<lparr>lastCommand := ''D'', commandTime := now (at_time 0)\<rparr>) ex_fs = Inr (m2, fs2, NoCmd)"
    "Update (at_time 200000000) (KeyMsg KeyRunes ''D'') m2 fs2 =
       Inr (m2\<lparr>lastCommand := ''D'', commandTime := now (at_time 200000000)\<rparr>, fs2, NoCmd)"
    by (simp_all add: no_cmd_def)
  have t: "now (at_time 0) = 0" "now (at_time 200000000) = 200000000" by (simp_all add: at_time_def)
  show ?thesis
    apply (intro conjI)
         apply (rule h(1))
        apply (rule h(2))
       apply (rule h(3))
      apply (rule h(4))
     apply (use s(1) t in simp)
    apply (rule exI[of _ m2], rule exI[of _ fs2])
    apply (use s(2,3) t u in simp)
    done
qed

section \<open>The delete shortcut across chords: C5\<close>

text \<open>
  C5. In the normal mode the key D, pressed less than 500 ms after a d that is pending,
  runs the delete operation (and clears the pending key), though D is not the pending
  key. In particular d and then D within 500 ms, from a state where d is not pending,
  first makes d pending and then deletes.
\<close>

theorem cross_chord_delete:
  "(normal_mode m \<and> lastCommand m = ''d'' \<and> now e - commandTime m < 500000000 \<longrightarrow>
      Update e (KeyMsg ty ''D'') m fs =
        (case deleteFile e m fs of
           Inl f \<Rightarrow> Inl f
         | Inr (m1, fs1) \<Rightarrow> Inr (m1\<lparr>lastCommand := []\<rparr>, fs1, NoCmd)))
   \<and> (normal_mode m \<and> lastCommand m \<noteq> ''d'' \<and> now e2 - now e1 < 500000000 \<longrightarrow>
      Update e1 (KeyMsg ty1 ''d'') m fs =
        Inr (m\<lparr>lastCommand := ''d'', commandTime := now e1\<rparr>, fs, NoCmd)
      \<and> Update e2 (KeyMsg ty2 ''D'') (m\<lparr>lastCommand := ''d'', commandTime := now e1\<rparr>) fs =
        (case deleteFile e2 (m\<lparr>lastCommand := ''d'', commandTime := now e1\<rparr>) fs of
           Inl f \<Rightarrow> Inl f
         | Inr (m1, fs1) \<Rightarrow> Inr (m1\<lparr>lastCommand := []\<rparr>, fs1, NoCmd)))"
  by (auto simp: Update_normal update_normal_keys update_D_def handleDoubleCommand_def
        chord_window_def normal_mode_def no_cmd_def split: sum.splits)

definition pending_d :: FileManager where
  "pending_d = ex_model\<lparr>lastCommand := ''d'', commandTime := 0\<rparr>"

theorem cross_chord_delete_witness:
  "normal_mode ex_model \<and> lastCommand ex_model \<noteq> ''d'' \<and> now (at_time 100000000) - now (at_time 0) < 500000000
   \<and> Update (at_time 0) (KeyMsg KeyRunes ''d'') ex_model ex_fs = Inr (pending_d, ex_fs, NoCmd)
   \<and> map_sum id (\<lambda>(m, fs, c). (map Name (Entries m), map Type (undoStack m),
          map NewPath (undoStack m), lookup fs [''home'', ''a.txt''],
          lookup fs [''tmp'', ''tfm_trash_123'', ''a.txt'']))
        (Update (at_time 100000000) (KeyMsg KeyRunes ''D'') pending_d ex_fs)
       = Inr ([''b'', ''c.txt''], [''delete''], [''/tmp/tfm_trash_123/a.txt''], None, Some (File ''A''))"
proof -
  have h: "normal_mode ex_model \<and> lastCommand ex_model \<noteq> ''d''
      \<and> now (at_time 100000000) - now (at_time 0) < 500000000"
    by (simp add: normal_mode_def ex_model_def at_time_def)
  have p: "ex_model\<lparr>lastCommand := ''d'', commandTime := now (at_time 0)\<rparr> = pending_d"
    by (simp add: pending_d_def at_time_def)
  have ev: "map_sum id (\<lambda>(m, fs, c). (map Name (Entries m), map Type (undoStack m),
          map NewPath (undoStack m), lookup fs [''home'', ''a.txt''],
          lookup fs [''tmp'', ''tfm_trash_123'', ''a.txt'']))
       (case deleteFile (at_time 100000000) pending_d ex_fs of
           Inl f \<Rightarrow> Inl f
         | Inr (m1, fs1) \<Rightarrow> Inr (m1\<lparr>lastCommand := []\<rparr>, fs1, NoCmd))
       = Inr ([''b'', ''c.txt''], [''delete''], [''/tmp/tfm_trash_123/a.txt''], None, Some (File ''A''))"
    by code_simp
  show ?thesis
    using h p ev
      cross_chord_delete[of ex_model "at_time 0" KeyRunes ex_fs "at_time 100000000" "at_time 0"
        KeyRunes KeyRunes]
    by simp
qed


section \<open>The cursor never becomes negative but by G: C10\<close>

lemma clamp_cursor_nonneg: "0 \<le> Cursor m \<Longrightarrow> 0 \<le> Cursor (clamp_cursor m)"
  by (auto simp: clamp_cursor_def)

lemma cutFile_cursor: "cutFile m = Inr m' \<Longrightarrow> 0 \<le> Cursor m \<longrightarrow> 0 \<le> Cursor m'"
  by (auto simp: cutFile_def Let_def clamp_cursor_def split: if_splits sum.splits)

lemma copyFile_cursor: "copyFile m = Inr m' \<Longrightarrow> Cursor m' = Cursor m"
  by (auto simp: copyFile_def split: if_splits sum.splits)

lemma deleteFile_cursor:
  "deleteFile e m fs = Inr (m', fs') \<Longrightarrow> 0 \<le> Cursor m \<longrightarrow> 0 \<le> Cursor m'"
  by (auto simp: deleteFile_def Let_def clamp_cursor_def
           split: if_splits sum.splits option.splits prod.splits)

lemma pasteFile_cursor: "pasteFile e m fs = Inr (m', fs') \<Longrightarrow> Cursor m' = Cursor m"
  by (auto simp: pasteFile_def Let_def split: if_splits sum.splits option.splits prod.splits)

lemma undoLastAction_cursor: "undoLastAction m fs = (m', fs') \<Longrightarrow> Cursor m' = Cursor m"
  by (auto simp: undoLastAction_def undo_move_def Let_def split: if_splits option.splits)

lemma searchFiles_cursor: "0 \<le> Cursor m \<Longrightarrow> 0 \<le> Cursor (searchFiles q m)"
  by (auto simp: searchFiles_def split: option.splits)

lemma renameFile_cursor:
  "renameFile n m fs = Inr (m', fs') \<Longrightarrow> 0 \<le> Cursor m \<longrightarrow> 0 \<le> Cursor m'"
  by (auto simp: renameFile_def Let_def split: if_splits sum.splits option.splits)

lemma navigateWithZoxide_cursor: "0 \<le> Cursor m \<Longrightarrow> 0 \<le> Cursor (navigateWithZoxide e q m fs)"
  by (auto simp: navigateWithZoxide_def Let_def split: option.splits)

lemma tryEnterDirectory_cursor:
  "tryEnterDirectory m fs = Inr m' \<Longrightarrow> 0 \<le> Cursor m \<longrightarrow> 0 \<le> Cursor m'"
  by (auto simp: tryEnterDirectory_def split: if_splits sum.splits)

lemma ascend_cursor: "0 \<le> Cursor m \<Longrightarrow> 0 \<le> Cursor (ascend m fs)"
  by (auto simp: ascend_def Let_def split: option.splits)

lemma update_search_cursor: "0 \<le> Cursor m \<Longrightarrow> 0 \<le> Cursor (update_search ty s m)"
  by (cases ty) (auto simp: update_search_def searchFiles_def split: option.splits)

lemma update_rename_cursor:
  "update_rename ty s m fs = Inr (m', fs') \<Longrightarrow> 0 \<le> Cursor m \<longrightarrow> 0 \<le> Cursor m'"
  by (cases ty) (auto simp: update_rename_def split: sum.splits if_splits dest!: renameFile_cursor)

lemma update_zoxide_cursor: "0 \<le> Cursor m \<Longrightarrow> 0 \<le> Cursor (update_zoxide e ty s m fs)"
  by (cases ty) (auto simp: update_zoxide_def navigateWithZoxide_def Let_def split: option.splits)

lemma handleDoubleCommand_cursor: "Cursor (snd (handleDoubleCommand t c m)) = Cursor m"
  by (simp add: handleDoubleCommand_def)

lemma update_D_cursor:
  "update_D e m fs = Inr (m', fs') \<Longrightarrow> 0 \<le> Cursor m \<longrightarrow> 0 \<le> Cursor m'"
  by (auto simp: update_D_def handleDoubleCommand_def split: if_splits sum.splits prod.splits
           dest!: deleteFile_cursor)

lemma update_normal_cursor:
  assumes "update_normal e s m fs = Inr (m', fs', c)" and "0 \<le> Cursor m"
    and "s = ''G'' \<longrightarrow> Entries m \<noteq> []"
  shows "0 \<le> Cursor m'"
proof (cases "s \<in> set known_keys")
  case False
  with assms show ?thesis by (simp add: update_normal_other)
next
  case True
  have len: "Entries m \<noteq> [] \<Longrightarrow> 0 \<le> int (length (Entries m)) - 1"
    by (cases "Entries m") auto
  from True assms len show ?thesis
    unfolding known_keys_def other_keys_def plain_keys_def mode_keys_def chord_keys_def
    by (auto simp: update_normal_keys handleDoubleCommand_def ascend_cursor
             split: sum.splits if_splits
             dest!: tryEnterDirectory_cursor cutFile_cursor copyFile_cursor pasteFile_cursor
                    update_D_cursor undoLastAction_cursor)
qed

lemma Update_cursor:
  assumes "Update e x m fs = Inr (m', fs', c)" and "0 \<le> Cursor m"
    and "\<forall>ty. x = KeyMsg ty ''G'' \<longrightarrow> \<not> normal_mode m \<or> Entries m \<noteq> []"
  shows "0 \<le> Cursor m'"
proof (cases x)
  case ReloadDirectoryMsg
  with assms show ?thesis by (auto simp: Update_def)
next
  case (KeyMsg ty s)
  show ?thesis
  proof (cases "normal_mode m")
    case True
    with assms KeyMsg show ?thesis
      by (auto simp: Update_normal dest: update_normal_cursor)
  next
    case False
    with assms KeyMsg show ?thesis
      by (auto simp: Update_def normal_mode_def update_search_cursor update_zoxide_cursor
               split: if_splits dest!: update_rename_cursor)
  qed
next
  case (WindowSizeMsg w h)
  with assms show ?thesis by (auto simp: Update_def)
next
  case OtherMsg
  with assms show ?thesis by (auto simp: Update_def)
qed

text \<open>
  C10. In the normal mode, on an empty list of entries, the key G sets the cursor to
  \<open>len(entries) - 1 = -1\<close>; the movement keys leave it at \<open>-1\<close> while the list is empty.
  No other event makes the cursor negative: from a cursor that is not negative, every
  event that is not G on an empty list in the normal mode leaves it not negative.
\<close>

theorem jump_to_last_negative_cursor:
  "(normal_mode m \<and> Entries m = [] \<longrightarrow>
      Update e (KeyMsg ty ''G'') m fs = Inr (m\<lparr>Cursor := - 1\<rparr>, fs, NoCmd))
   \<and> (normal_mode m \<and> Entries m = [] \<and> Cursor m = - 1 \<and> s \<in> {''up'', ''k'', ''down'', ''j''} \<longrightarrow>
      Update e (KeyMsg ty s) m fs = Inr (m, fs, NoCmd))
   \<and> (0 \<le> Cursor m \<and> Update e x m fs = Inr (m', fs', c)
        \<and> (\<forall>ty. x = KeyMsg ty ''G'' \<longrightarrow> \<not> normal_mode m \<or> Entries m \<noteq> [])
      \<longrightarrow> 0 \<le> Cursor m')"
proof -
  have a: "normal_mode m \<and> Entries m = [] \<longrightarrow>
      Update e (KeyMsg ty ''G'') m fs = Inr (m\<lparr>Cursor := - 1\<rparr>, fs, NoCmd)"
    by (simp add: Update_normal update_normal_keys)
  have b: "normal_mode m \<and> Entries m = [] \<and> Cursor m = - 1 \<and> s \<in> {''up'', ''k'', ''down'', ''j''} \<longrightarrow>
      Update e (KeyMsg ty s) m fs = Inr (m, fs, NoCmd)"
    by (auto simp: Update_normal update_normal_keys)
  have c: "0 \<le> Cursor m \<and> Update e x m fs = Inr (m', fs', c)
        \<and> (\<forall>ty. x = KeyMsg ty ''G'' \<longrightarrow> \<not> normal_mode m \<or> Entries m \<noteq> [])
      \<longrightarrow> 0 \<le> Cursor m'"
    using Update_cursor[of e x m fs m' fs' c] by blast
  from a b c show ?thesis by blast
qed

definition ex_empty :: FileManager where
  "ex_empty = ex_model\<lparr>CurrentPath := ''/tmp'', Entries := [], Cursor := 0\<rparr>"

theorem jump_to_last_negative_cursor_witness:
  "normal_mode ex_empty \<and> Entries ex_empty = []
   \<and> Update (at_time 0) (KeyMsg KeyRunes ''G'') ex_empty ex_fs
       = Inr (ex_empty\<lparr>Cursor := - 1\<rparr>, ex_fs, NoCmd)
   \<and> Cursor (ex_empty\<lparr>Cursor := - 1\<rparr>) = - 1
   \<and> Update (at_time 1) (KeyMsg KeyRunes ''j'') (ex_empty\<lparr>Cursor := - 1\<rparr>) ex_fs
       = Inr (ex_empty\<lparr>Cursor := - 1\<rparr>, ex_fs, NoCmd)
   \<and> 0 \<le> Cursor ex_empty
   \<and> Update (at_time 2) (KeyMsg KeyRunes ''k'') ex_empty ex_fs = Inr (ex_empty, ex_fs, NoCmd)
   \<and> 0 \<le> Cursor ex_empty"
proof -
  have n: "normal_mode ex_empty" "Entries ex_empty = []" "Cursor ex_empty = 0"
    by (simp_all add: ex_empty_def ex_model_def normal_mode_def)
  have k: "Update (at_time 2) (KeyMsg KeyRunes ''k'') ex_empty ex_fs = Inr (ex_empty, ex_fs, NoCmd)"
    using n by (simp add: Update_normal update_normal_keys)
  show ?thesis
    using n k
      jump_to_last_negative_cursor[of ex_empty "at_time 0" KeyRunes ex_fs "''j''"
        "KeyMsg KeyRunes ''k''" ex_empty ex_fs NoCmd]
      jump_to_last_negative_cursor[of "ex_empty\<lparr>Cursor := - 1\<rparr>" "at_time 1" KeyRunes ex_fs "''j''"]
    by (simp add: normal_mode_def)
qed



section \<open>The pending chord state: C6\<close>

text \<open>
  C6 fails on the code as it is stated. In the sample session: d at 0 ms, the movement
  key j at 100 ms, d at 200 ms. The key j leaves the pending key where it is, the second
  d resolves the chord, and the entry then under the cursor is cut.
\<close>

theorem chord_survives_unrelated_key:
  "map_sum id (\<lambda>(m, fs). (clipboardOp m, map Name (Entries m), map Type (undoStack m)))
     (run_events [(at_time 0, KeyMsg KeyRunes ''d''),
                  (at_time 100000000, KeyMsg KeyRunes ''j''),
                  (at_time 200000000, KeyMsg KeyRunes ''d'')] ex_model ex_fs)
   = Inr (''cut'', [''b'', ''a.txt''], [''cut''])"
  by code_simp

lemma Update_pending:
  assumes "Update e x m fs = Inr (m', fs', c)"
  shows "if normal_mode m \<and> (\<exists>ty s. x = KeyMsg ty s \<and> s \<in> set chord_keys)
         then (lastCommand m' = [] \<and> commandTime m' = commandTime m)
              \<or> ((\<exists>ty. x = KeyMsg ty (lastCommand m')) \<and> commandTime m' = now e)
         else lastCommand m' = lastCommand m \<and> commandTime m' = commandTime m"
proof (cases x)
  case ReloadDirectoryMsg
  with assms show ?thesis by (auto simp: Update_def)
next
  case (KeyMsg ty s)
  show ?thesis
  proof (cases "normal_mode m")
    case True
    note nm = this
    show ?thesis
    proof (cases "s \<in> set chord_keys")
      case True
      from assms KeyMsg nm have "update_normal e s m fs = Inr (m', fs', c)"
        by (simp add: Update_normal)
      from update_normal_pending_chord[OF this True] KeyMsg nm True show ?thesis by auto
    next
      case False
      from assms KeyMsg nm have "update_normal e s m fs = Inr (m', fs', c)"
        by (simp add: Update_normal)
      from update_normal_pending_other[OF this False] KeyMsg False show ?thesis by auto
    qed
  next
    case False
    with assms KeyMsg show ?thesis
      by (auto simp: Update_def normal_mode_def update_search_pending update_zoxide_pending
               split: if_splits dest!: update_rename_pending)
  qed
next
  case (WindowSizeMsg w h)
  with assms show ?thesis by (auto simp: Update_def)
next
  case OtherMsg
  with assms show ?thesis by (auto simp: Update_def)
qed

lemma update_normal_stays_normal:
  assumes "update_normal e s m fs = Inr (m', fs', c)" and "normal_mode m"
    and "s \<notin> set mode_keys"
  shows "normal_mode m'"
proof -
  have f: "\<And>m1. same_flags m m1 \<Longrightarrow> normal_mode m1"
    using assms(2) by (simp add: same_flags_def normal_mode_def)
  consider "s \<notin> set known_keys" | "s \<in> set chord_keys" | "s \<in> set plain_keys"
    using assms(3) by (auto simp: known_keys_def other_keys_def)
  then show ?thesis
  proof cases
    case 1
    with assms show ?thesis by (simp add: update_normal_other)
  next
    case 2
    from assms(1,2) have u: "Update e (KeyMsg KeyRunes s) m fs = Inr (m', fs', c)"
      by (simp add: Update_normal)
    show ?thesis
    proof (cases "chord_fires s (now e) m")
      case True
      with u Update_chord_key[OF assms(2) 2, of e KeyRunes fs]
      have "chord_command s e (m\<lparr>lastCommand := []\<rparr>) fs = Inr (m', fs')" by simp
      from chord_command_flags[OF this] assms(2) show ?thesis
        by (simp add: same_flags_def normal_mode_def)
    next
      case False
      with u Update_chord_key[OF assms(2) 2, of e KeyRunes fs] assms(2) show ?thesis
        by (auto simp: normal_mode_def)
    qed
  next
    case 3
    with assms(1) f ascend_flags[of m fs] show ?thesis
      unfolding plain_keys_def
      by (auto simp: update_normal_keys split: sum.splits if_splits
               dest!: tryEnterDirectory_flags undoLastAction_flags)
         (use assms(2) in \<open>simp_all add: normal_mode_def\<close>)
  qed
qed

lemma chord_then_other_then_chord:
  assumes nm: "normal_mode m" and k: "k \<in> set chord_keys"
    and nf: "\<not> ((lastCommand m = k \<or> k = ''D'' \<and> lastCommand m = ''d'')
                 \<and> now e1 - commandTime m < 500000000)"
    and u: "u \<notin> set chord_keys"
    and s2: "Update e2 (KeyMsg ty2 u) (m\<lparr>lastCommand := k, commandTime := now e1\<rparr>) fs
               = Inr (m2, fs2, c2)"
    and n2: "u \<notin> set mode_keys \<or> normal_mode m2"
    and w: "now e3 - now e1 < 500000000"
  shows "Update e1 (KeyMsg ty1 k) m fs =
           Inr (m\<lparr>lastCommand := k, commandTime := now e1\<rparr>, fs, NoCmd)
         \<and> lastCommand m2 = k \<and> commandTime m2 = now e1 \<and> normal_mode m2
         \<and> Update e3 (KeyMsg ty3 k) m2 fs2 =
             no_cmd (chord_command k e3 (m2\<lparr>lastCommand := []\<rparr>) fs2)"
proof -
  let ?m1 = "m\<lparr>lastCommand := k, commandTime := now e1\<rparr>"
  have n1: "normal_mode ?m1" using nm by (simp add: normal_mode_def)
  from nf have "\<not> chord_fires k (now e1) m" by (simp add: chord_fires_def chord_window_def)
  with Update_chord_key[OF nm k, of e1 ty1 fs]
  have s1: "Update e1 (KeyMsg ty1 k) m fs = Inr (?m1, fs, NoCmd)" by simp
  from Update_pending[OF s2] u
  have p: "lastCommand m2 = k \<and> commandTime m2 = now e1" by (auto split: if_splits)
  have nm2: "normal_mode m2"
  proof (cases "normal_mode m2")
    case True
    then show ?thesis .
  next
    case False
    with n2 have "u \<notin> set mode_keys" by blast
    moreover from s2 n1 have "update_normal e2 u ?m1 fs = Inr (m2, fs2, c2)"
      by (simp add: Update_normal)
    ultimately show ?thesis using n1 by (rule update_normal_stays_normal[rotated 2])
  qed
  from p w have "chord_fires k (now e3) m2" by (simp add: chord_fires_def chord_window_def)
  with Update_chord_key[OF nm2 k, of e3 ty3 fs2]
  have s3: "Update e3 (KeyMsg ty3 k) m2 fs2 =
             no_cmd (chord_command k e3 (m2\<lparr>lastCommand := []\<rparr>) fs2)" by simp
  from s1 p nm2 s3 show ?thesis by blast
qed

text \<open>
  C6, amended. An event changes the pending chord state only when it is one of the chord
  keys (d, D, y, p, g) in the normal mode: then the pending key is reset to empty (a
  resolution) or replaced by that key with the time of the event. Every other event
  leaves the pending key and its time as they are. So take a chord key that becomes
  pending, then a key that is not a chord key and after which the program is still in
  the normal mode (every key but /, a and z, which open a text mode), then the chord key
  again less than 500 ms after its first press: the chord is still pending after the
  second key, and the third key runs the command of the chord.
\<close>

theorem chord_state_lifecycle:
  "(Update e x m fs = Inr (m', fs', c) \<longrightarrow>
      (if normal_mode m \<and> (\<exists>ty s. x = KeyMsg ty s \<and> s \<in> set chord_keys)
       then (lastCommand m' = [] \<and> commandTime m' = commandTime m)
            \<or> ((\<exists>ty. x = KeyMsg ty (lastCommand m')) \<and> commandTime m' = now e)
       else lastCommand m' = lastCommand m \<and> commandTime m' = commandTime m))
   \<and> (normal_mode m \<and> k \<in> set chord_keys
        \<and> \<not> ((lastCommand m = k \<or> k = ''D'' \<and> lastCommand m = ''d'')
              \<and> now e1 - commandTime m < 500000000)
        \<and> u \<notin> set chord_keys
        \<and> Update e2 (KeyMsg ty2 u) (m\<lparr>lastCommand := k, commandTime := now e1\<rparr>) fs
             = Inr (m2, fs2, c2)
        \<and> (u \<notin> set mode_keys \<or> normal_mode m2)
        \<and> now e3 - now e1 < 500000000
      \<longrightarrow> Update e1 (KeyMsg ty1 k) m fs =
            Inr (m\<lparr>lastCommand := k, commandTime := now e1\<rparr>, fs, NoCmd)
          \<and> lastCommand m2 = k \<and> commandTime m2 = now e1 \<and> normal_mode m2
          \<and> Update e3 (KeyMsg ty3 k) m2 fs2 =
              no_cmd (chord_command k e3 (m2\<lparr>lastCommand := []\<rparr>) fs2))"
  using Update_pending[of e x m fs m' fs' c]
        chord_then_other_then_chord[of m k e1 u e2 ty2 fs m2 fs2 c2 e3 ty1 ty3]
  by blast

theorem chord_state_lifecycle_witness:
  "normal_mode ex_model \<and> ''d'' \<in> set chord_keys
   \<and> \<not> ((lastCommand ex_model = ''d'' \<or> ''d'' = ''D'' \<and> lastCommand ex_model = ''d'')
         \<and> now (at_time 0) - commandTime ex_model < 500000000)
   \<and> ''j'' \<notin> set chord_keys \<and> ''j'' \<notin> set mode_keys
   \<and> now (at_time 200000000) - now (at_time 0) < 500000000
   \<and> Update (at_time 0) (KeyMsg KeyRunes ''d'') ex_model ex_fs = Inr (pending_d, ex_fs, NoCmd)
   \<and> Update (at_time 100000000) (KeyMsg KeyRunes ''j'') pending_d ex_fs
       = Inr (pending_d\<lparr>Cursor := 2\<rparr>, ex_fs, NoCmd)
   \<and> lastCommand (pending_d\<lparr>Cursor := 2\<rparr>) = ''d''
   \<and> commandTime (pending_d\<lparr>Cursor := 2\<rparr>) = 0
   \<and> normal_mode (pending_d\<lparr>Cursor := 2\<rparr>)
   \<and> Update (at_time 200000000) (KeyMsg KeyRunes ''d'') (pending_d\<lparr>Cursor := 2\<rparr>) ex_fs
       = no_cmd (with_fs ex_fs (cutFile (pending_d\<lparr>Cursor := 2, lastCommand := []\<rparr>)))
   \<and> map_sum id (\<lambda>m. (clipboardOp m, map Name (Entries m), map Type (undoStack m)))
        (cutFile (pending_d\<lparr>Cursor := 2, lastCommand := []\<rparr>))
       = Inr (''cut'', [''b'', ''a.txt''], [''cut''])"
proof -
  have h: "normal_mode ex_model" "''d'' \<in> set chord_keys"
    "\<not> ((lastCommand ex_model = ''d'' \<or> ''d'' = ''D'' \<and> lastCommand ex_model = ''d'')
         \<and> now (at_time 0) - commandTime ex_model < 500000000)"
    "''j'' \<notin> set chord_keys" "''j'' \<notin> set mode_keys"
    "now (at_time 200000000) - now (at_time 0) < 500000000" "normal_mode pending_d"
    by (simp_all add: normal_mode_def ex_model_def pending_d_def chord_keys_def mode_keys_def
          at_time_def)
  have p: "ex_model\<lparr>lastCommand := ''d'', commandTime := now (at_time 0)\<rparr> = pending_d"
    by (simp add: pending_d_def at_time_def)
  have len: "length (Entries pending_d) = 3" "Cursor pending_d = 1"
    by code_simp+
  have s2: "Update (at_time 100000000) (KeyMsg KeyRunes ''j'') pending_d ex_fs
       = Inr (pending_d\<lparr>Cursor := 2\<rparr>, ex_fs, NoCmd)"
    using h len by (simp add: Update_normal update_normal_keys)
  have ev: "map_sum id (\<lambda>m. (clipboardOp m, map Name (Entries m), map Type (undoStack m)))
        (cutFile (pending_d\<lparr>Cursor := 2, lastCommand := []\<rparr>))
       = Inr (''cut'', [''b'', ''a.txt''], [''cut''])"
    by code_simp
  note two = chord_state_lifecycle[where m = ex_model and k = "''d''" and u = "''j''"
      and fs = ex_fs and ?e1.0 = "at_time 0" and ?e2.0 = "at_time 100000000"
      and ?e3.0 = "at_time 200000000" and ?ty1.0 = KeyRunes and ?ty2.0 = KeyRunes
      and ?ty3.0 = KeyRunes and ?m2.0 = "pending_d\<lparr>Cursor := 2\<rparr>" and ?fs2.0 = ex_fs
      and ?c2.0 = NoCmd, THEN conjunct2]
  have hyp: "normal_mode ex_model \<and> ''d'' \<in> set chord_keys
        \<and> \<not> ((lastCommand ex_model = ''d'' \<or> ''d'' = ''D'' \<and> lastCommand ex_model = ''d'')
              \<and> now (at_time 0) - commandTime ex_model < 500000000)
        \<and> ''j'' \<notin> set chord_keys
        \<and> Update (at_time 100000000) (KeyMsg KeyRunes ''j'')
             (ex_model\<lparr>lastCommand := ''d'', commandTime := now (at_time 0)\<rparr>) ex_fs
             = Inr (pending_d\<lparr>Cursor := 2\<rparr>, ex_fs, NoCmd)
        \<and> (''j'' \<notin> set mode_keys \<or> normal_mode (pending_d\<lparr>Cursor := 2\<rparr>))
        \<and> now (at_time 200000000) - now (at_time 0) < 500000000"
    using h s2 p by simp
  from mp[OF two hyp] p
  have r: "Update (at_time 0) (KeyMsg KeyRunes ''d'') ex_model ex_fs = Inr (pending_d, ex_fs, NoCmd)"
    "lastCommand (pending_d\<lparr>Cursor := 2\<rparr>) = ''d''"
    "commandTime (pending_d\<lparr>Cursor := 2\<rparr>) = 0"
    "normal_mode (pending_d\<lparr>Cursor := 2\<rparr>)"
    "Update (at_time 200000000) (KeyMsg KeyRunes ''d'') (pending_d\<lparr>Cursor := 2\<rparr>) ex_fs
       = no_cmd (with_fs ex_fs (cutFile (pending_d\<lparr>Cursor := 2, lastCommand := []\<rparr>)))"
    by (simp_all add: chord_command_def at_time_def)
  from h r s2 ev show ?thesis by blast
qed

section \<open>The text modes: C9\<close>

text \<open>
  The modes of the specification. \<open>mode_of\<close> reads the three flags in the order in
  which \<^verbatim>\<open>Update\<close> tests them, and \<open>one_mode\<close> says that at most one flag is set
  (\<open>Update_one_mode\<close>: every event keeps it so). \<open>text_buffer\<close> is the buffer of the
  active mode, \<open>leave_mode\<close> clears it and returns to the normal mode, and
  \<open>mode_commit\<close> is the action of the mode on its buffer (search, rename, jump).
\<close>

datatype mode = Normal | Search | Rename | Jump

definition mode_of :: "FileManager \<Rightarrow> mode" where
  "mode_of m = (if searchMode m then Search else if renameMode m then Rename
                else if zoxideMode m then Jump else Normal)"

definition one_mode :: "FileManager \<Rightarrow> bool" where
  "one_mode m = (\<not> (searchMode m \<and> renameMode m) \<and> \<not> (searchMode m \<and> zoxideMode m)
                 \<and> \<not> (renameMode m \<and> zoxideMode m))"

definition text_buffer :: "FileManager \<Rightarrow> string" where
  "text_buffer m = (case mode_of m of Search \<Rightarrow> searchQuery m | Rename \<Rightarrow> renameText m
                    | Jump \<Rightarrow> zoxideQuery m | Normal \<Rightarrow> [])"

definition set_text_buffer :: "string \<Rightarrow> FileManager \<Rightarrow> FileManager" where
  "set_text_buffer b m = (case mode_of m of Search \<Rightarrow> m\<lparr>searchQuery := b\<rparr>
                          | Rename \<Rightarrow> m\<lparr>renameText := b\<rparr>
                          | Jump \<Rightarrow> m\<lparr>zoxideQuery := b\<rparr> | Normal \<Rightarrow> m)"

definition leave_mode :: "FileManager \<Rightarrow> FileManager" where
  "leave_mode m = (case mode_of m of Search \<Rightarrow> m\<lparr>searchMode := False, searchQuery := []\<rparr>
                   | Rename \<Rightarrow> m\<lparr>renameMode := False, renameText := []\<rparr>
                   | Jump \<Rightarrow> m\<lparr>zoxideMode := False, zoxideQuery := []\<rparr> | Normal \<Rightarrow> m)"

definition mode_commit :: "env \<Rightarrow> FileManager \<Rightarrow> filesys \<Rightarrow> fault + (FileManager \<times> filesys)" where
  "mode_commit e m fs =
     (case mode_of m of
        Search \<Rightarrow> Inr (searchFiles (searchQuery m) m, fs)
      | Rename \<Rightarrow> renameFile (renameText m) m fs
      | Jump \<Rightarrow> Inr (navigateWithZoxide e (zoxideQuery m) m fs, fs)
      | Normal \<Rightarrow> Inr (m, fs))"

text \<open>
  The step of a text mode as the amended claim has it, on bytes and on the text of the
  key: the enter key commits, the escape key cancels, the backspace key drops the last
  byte of the buffer if there is one, and every other key appends its text
  (\<^verbatim>\<open>msg.String()\<close>) to the buffer.
\<close>

definition text_mode_step ::
  "env \<Rightarrow> key_type \<Rightarrow> string \<Rightarrow> FileManager \<Rightarrow> filesys \<Rightarrow> fault + (FileManager \<times> filesys \<times> cmd)" where
  "text_mode_step e ty s m fs =
     (case ty of
        KeyEnter \<Rightarrow> (case mode_commit e m fs of
                       Inl f \<Rightarrow> Inl f
                     | Inr (m1, fs1) \<Rightarrow> Inr (leave_mode m1, fs1, NoCmd))
      | KeyEsc \<Rightarrow> Inr (leave_mode m, fs, NoCmd)
      | KeyBackspace \<Rightarrow> Inr (set_text_buffer (butlast (text_buffer m)) m, fs, NoCmd)
      | _ \<Rightarrow> Inr (set_text_buffer (text_buffer m @ s) m, fs, NoCmd))"

lemma search_step:
  "searchMode m \<Longrightarrow> Update e (KeyMsg ty s) m fs = text_mode_step e ty s m fs"
  by (cases ty)
     (auto simp: Update_def update_search_def text_mode_step_def mode_of_def mode_commit_def
        leave_mode_def set_text_buffer_def text_buffer_def searchFiles_def
        split: option.splits)

lemma renameFile_flag:
  "renameFile n (m\<lparr>renameMode := b\<rparr>) fs =
     map_sum id (\<lambda>(m1, fs1). (m1\<lparr>renameMode := b\<rparr>, fs1)) (renameFile n m fs)"
  by (auto simp: renameFile_def Let_def split: sum.splits option.splits)

lemma renameFile_modes:
  "renameFile n m fs = Inr (m1, fs1) \<Longrightarrow>
     searchMode m1 = searchMode m \<and> renameMode m1 = renameMode m \<and> zoxideMode m1 = zoxideMode m"
  by (auto simp: renameFile_def Let_def split: sum.splits option.splits if_splits)

lemma rename_step:
  assumes "\<not> searchMode m" and "renameMode m"
  shows "Update e (KeyMsg ty s) m fs = text_mode_step e ty s m fs"
proof (cases ty)
  case KeyEnter
  show ?thesis
  proof (cases "renameFile (renameText m) m fs")
    case (Inl f)
    with assms KeyEnter show ?thesis
      by (simp add: Update_def update_rename_def text_mode_step_def mode_of_def mode_commit_def
            renameFile_flag no_cmd_def)
  next
    case (Inr r)
    obtain m1 fs1 where r: "r = (m1, fs1)" by (cases r)
    from renameFile_modes[OF Inr[unfolded r]] assms
    have "\<not> searchMode m1" "renameMode m1" by simp_all
    with assms KeyEnter Inr r show ?thesis
      by (simp add: Update_def update_rename_def text_mode_step_def mode_of_def mode_commit_def
            renameFile_flag no_cmd_def leave_mode_def)
  qed
qed (use assms in \<open>auto simp: Update_def update_rename_def text_mode_step_def mode_of_def
        leave_mode_def set_text_buffer_def text_buffer_def no_cmd_def\<close>)

lemma zoxide_step:
  assumes "\<not> searchMode m" and "\<not> renameMode m" and "zoxideMode m"
  shows "Update e (KeyMsg ty s) m fs = text_mode_step e ty s m fs"
  using assms
  by (cases ty)
     (auto simp: Update_def update_zoxide_def text_mode_step_def mode_of_def mode_commit_def
        leave_mode_def set_text_buffer_def text_buffer_def navigateWithZoxide_def Let_def
        split: option.splits)

lemma text_mode_refines:
  "mode_of m \<noteq> Normal \<Longrightarrow> Update e (KeyMsg ty s) m fs = text_mode_step e ty s m fs"
  using search_step[of m e ty s fs] rename_step[of m e ty s fs] zoxide_step[of m e ty s fs]
  by (auto simp: mode_of_def split: if_splits)

lemma one_mode_same: "same_flags m m' \<Longrightarrow> one_mode m \<Longrightarrow> one_mode m'"
  by (simp add: same_flags_def one_mode_def)

lemma update_normal_one_mode:
  assumes "update_normal e s m fs = Inr (m', fs', c)" and "normal_mode m"
  shows "one_mode m'"
proof (cases "s \<in> set known_keys")
  case False
  with assms show ?thesis by (simp add: update_normal_other normal_mode_def one_mode_def)
next
  case True
  have f: "\<And>m1. same_flags m m1 \<Longrightarrow> one_mode m1"
    using assms(2) by (simp add: same_flags_def one_mode_def normal_mode_def)
  have g: "\<And>m1 b. same_flags (m\<lparr>lastCommand := b\<rparr>) m1 \<Longrightarrow> one_mode m1"
    using assms(2) by (simp add: same_flags_def one_mode_def normal_mode_def)
  from True assms(1) f g ascend_flags[of m fs] show ?thesis
    unfolding known_keys_def other_keys_def plain_keys_def mode_keys_def chord_keys_def
    by (auto simp: update_normal_keys handleDoubleCommand_def
             split: sum.splits if_splits
             dest!: tryEnterDirectory_flags cutFile_flags copyFile_flags pasteFile_flags
                    update_D_flags undoLastAction_flags)
       (use assms(2) in \<open>simp_all add: one_mode_def normal_mode_def\<close>)
qed

text \<open>
  What no key in a text mode changes (\<open>untouched\<close>: the clipboard, the trash directory,
  the pending chord, the help screen; the undo stack is never popped), and what only the
  confirm key can change (\<open>same_view\<close> and the file system).
\<close>

definition untouched :: "FileManager \<Rightarrow> FileManager \<Rightarrow> bool" where
  "untouched m m' =
     (clipboard m' = clipboard m \<and> clipboardOp m' = clipboardOp m \<and> trashDir m' = trashDir m
      \<and> lastCommand m' = lastCommand m \<and> commandTime m' = commandTime m
      \<and> showWhichKey m' = showWhichKey m \<and> prefix (undoStack m) (undoStack m'))"

definition same_view :: "FileManager \<Rightarrow> FileManager \<Rightarrow> bool" where
  "same_view m m' =
     (Entries m' = Entries m \<and> Cursor m' = Cursor m \<and> CurrentPath m' = CurrentPath m
      \<and> undoStack m' = undoStack m)"

lemma text_mode_step_untouched:
  assumes "text_mode_step e ty s m fs = Inr (m', fs', c)"
  shows "c = NoCmd \<and> untouched m m'"
  using assms
  by (cases ty; cases "mode_of m")
     (auto simp: text_mode_step_def mode_commit_def leave_mode_def set_text_buffer_def
        mode_of_def untouched_def searchFiles_def navigateWithZoxide_def renameFile_def Let_def
        split: sum.splits option.splits if_splits)

lemma text_mode_step_same_view:
  assumes "text_mode_step e ty s m fs = Inr (m', fs', c)" and "ty \<noteq> KeyEnter"
  shows "fs' = fs \<and> same_view m m'"
  using assms
  by (cases ty; cases "mode_of m")
     (auto simp: text_mode_step_def leave_mode_def set_text_buffer_def same_view_def)

lemma text_mode_step_leaves:
  assumes "text_mode_step e ty s m fs = Inr (m', fs', c)" and "ty = KeyEnter \<or> ty = KeyEsc"
    and "one_mode m"
  shows "mode_of m' = Normal"
  using assms
  by (cases "mode_of m")
     (auto simp: text_mode_step_def mode_commit_def leave_mode_def one_mode_def
        mode_of_def searchFiles_def navigateWithZoxide_def renameFile_def Let_def
        split: sum.splits option.splits if_splits)

lemma text_mode_step_stays:
  assumes "text_mode_step e ty s m fs = Inr (m', fs', c)" and "ty \<noteq> KeyEnter" and "ty \<noteq> KeyEsc"
  shows "mode_of m' = mode_of m"
  using assms
  by (cases ty; cases "mode_of m")
     (auto simp: text_mode_step_def set_text_buffer_def mode_of_def split: if_splits)

text \<open>
  The step of a text mode as the claim words it, on characters. A buffer is a byte string
  in UTF-8: a character is one byte below 128, or a leading byte from 192 on followed by
  one to three continuation bytes (128 to 191). \<open>drop_last_character\<close> removes the last
  character with its continuation bytes. \<open>claimed_effect\<close> holds of a result that is
  one of the four effects that the claim allows for a key with the text \<open>s\<close>: confirm,
  cancel, backspace on the last character, or appending \<open>s\<close> when it is one character.
\<close>

definition is_continuation :: "char \<Rightarrow> bool" where
  "is_continuation c = (128 \<le> (of_char c :: nat) \<and> (of_char c :: nat) < 192)"

definition one_character :: "string \<Rightarrow> bool" where
  "one_character s =
     (case s of
        [] \<Rightarrow> False
      | c # cs \<Rightarrow>
          if (of_char c :: nat) < 128 then cs = []
          else 192 \<le> (of_char c :: nat) \<and> cs \<noteq> [] \<and> length cs \<le> 3
               \<and> list_all is_continuation cs)"

definition drop_last_character :: "string \<Rightarrow> string" where
  "drop_last_character s = rev (tl (dropWhile is_continuation (rev s)))"

definition claimed_effect ::
  "env \<Rightarrow> string \<Rightarrow> FileManager \<Rightarrow> filesys \<Rightarrow> FileManager \<times> filesys \<Rightarrow> bool" where
  "claimed_effect e s m fs r =
     ((case mode_commit e m fs of Inl f \<Rightarrow> False | Inr (m1, fs1) \<Rightarrow> r = (leave_mode m1, fs1))
      \<or> r = (leave_mode m, fs)
      \<or> r = (set_text_buffer (drop_last_character (text_buffer m)) m, fs)
      \<or> (one_character s \<and> r = (set_text_buffer (text_buffer m @ s) m, fs)))"

definition ex_search :: FileManager where
  "ex_search = ex_model\<lparr>searchMode := True, searchQuery := ''c''\<rparr>"

definition ex_accent :: FileManager where
  "ex_accent = ex_model\<lparr>searchMode := True, searchQuery := [CHR 0xC3, CHR 0xA9]\<rparr>"

lemma claimed_effect_search:
  assumes "claimed_effect e s m fs r" and "searchMode m"
  shows "\<not> searchMode (fst r)
         \<or> searchQuery (fst r) = drop_last_character (searchQuery m)
         \<or> (one_character s \<and> searchQuery (fst r) = searchQuery m @ s)"
proof -
  have sf: "\<And>q. searchMode (searchFiles q m)" "\<And>q. mode_of (searchFiles q m) = Search"
    using assms(2) by (auto simp: searchFiles_def mode_of_def split: option.splits)
  from assms have m: "mode_of m = Search" by (simp add: mode_of_def)
  from assms(1) show ?thesis
    by (auto simp: claimed_effect_def mode_commit_def leave_mode_def m sf
          set_text_buffer_def text_buffer_def)
qed

text \<open>
  C9 fails on the code as it is stated. In the search mode with the query c, the arrow
  key up, whose text is \<^verbatim>\<open>up\<close>, is no character key, and its text is typed into the
  query. With the query of the one character e with an acute accent (the bytes C3 A9),
  the backspace key leaves the byte C3, where dropping the last character leaves
  nothing. Neither result is one of the four effects of the claim.
\<close>

theorem key_name_typed_into_buffer:
  "Update (at_time 0) (KeyMsg KeyOther ''up'') ex_search ex_fs
     = Inr (ex_search\<lparr>searchQuery := ''cup''\<rparr>, ex_fs, NoCmd)
   \<and> \<not> claimed_effect (at_time 0) ''up'' ex_search ex_fs
         (ex_search\<lparr>searchQuery := ''cup''\<rparr>, ex_fs)
   \<and> Update (at_time 0) (KeyMsg KeyBackspace ''backspace'') ex_accent ex_fs
     = Inr (ex_accent\<lparr>searchQuery := [CHR 0xC3]\<rparr>, ex_fs, NoCmd)
   \<and> drop_last_character (searchQuery ex_accent) = []
   \<and> \<not> claimed_effect (at_time 0) ''backspace'' ex_accent ex_fs
         (ex_accent\<lparr>searchQuery := [CHR 0xC3]\<rparr>, ex_fs)"
proof -
  have n1: "\<not> one_character ''up''" by (simp add: one_character_def)
  have a: "Update (at_time 0) (KeyMsg KeyOther ''up'') ex_search ex_fs
     = Inr (ex_search\<lparr>searchQuery := ''cup''\<rparr>, ex_fs, NoCmd)"
    by (simp add: Update_def update_search_def ex_search_def)
  have b: "\<not> claimed_effect (at_time 0) ''up'' ex_search ex_fs
         (ex_search\<lparr>searchQuery := ''cup''\<rparr>, ex_fs)"
  proof
    assume "claimed_effect (at_time 0) ''up'' ex_search ex_fs
         (ex_search\<lparr>searchQuery := ''cup''\<rparr>, ex_fs)"
    from claimed_effect_search[OF this] n1 show False
      by (simp add: ex_search_def drop_last_character_def is_continuation_def)
  qed
  have c: "Update (at_time 0) (KeyMsg KeyBackspace ''backspace'') ex_accent ex_fs
     = Inr (ex_accent\<lparr>searchQuery := [CHR 0xC3]\<rparr>, ex_fs, NoCmd)"
    by (simp add: Update_def update_search_def ex_accent_def)
  have d: "drop_last_character (searchQuery ex_accent) = []"
    by (simp add: drop_last_character_def is_continuation_def ex_accent_def)
  have n2: "\<not> one_character ''backspace''" by (simp add: one_character_def)
  have e: "\<not> claimed_effect (at_time 0) ''backspace'' ex_accent ex_fs
         (ex_accent\<lparr>searchQuery := [CHR 0xC3]\<rparr>, ex_fs)"
  proof
    assume "claimed_effect (at_time 0) ''backspace'' ex_accent ex_fs
         (ex_accent\<lparr>searchQuery := [CHR 0xC3]\<rparr>, ex_fs)"
    from claimed_effect_search[OF this] n2 d show False
      by (simp add: ex_accent_def)
  qed
  from a b c d e show ?thesis by blast
qed

lemma text_mode_step_claimed:
  assumes "text_mode_step e ty s m fs = Inr (m', fs', c)"
    and "ty = KeyBackspace \<longrightarrow> drop_last_character (text_buffer m) = butlast (text_buffer m)"
    and "ty = KeyRunes \<or> ty = KeyOther \<longrightarrow> one_character s"
  shows "claimed_effect e s m fs (m', fs')"
  using assms
  by (cases ty) (auto simp: text_mode_step_def claimed_effect_def split: sum.splits)

lemma Update_one_mode:
  assumes "Update e x m fs = Inr (m', fs', c)" and "one_mode m"
  shows "one_mode m'"
proof (cases x)
  case (KeyMsg ty s)
  show ?thesis
  proof (cases "mode_of m = Normal")
    case True
    then have nm: "normal_mode m" by (auto simp: mode_of_def normal_mode_def split: if_splits)
    with assms KeyMsg show ?thesis
      by (auto simp: Update_normal dest: update_normal_one_mode)
  next
    case False
    from assms KeyMsg False have st: "text_mode_step e ty s m fs = Inr (m', fs', c)"
      by (simp add: text_mode_refines)
    show ?thesis
    proof (cases "ty = KeyEnter \<or> ty = KeyEsc")
      case True
      from text_mode_step_leaves[OF st True assms(2)] show ?thesis
        by (auto simp: mode_of_def one_mode_def split: if_splits)
    next
      case False
      then have "mode_of m' = mode_of m" using text_mode_step_stays[OF st] by simp
      moreover from st False have "same_flags m m'"
        by (cases ty; cases "mode_of m")
           (auto simp: text_mode_step_def set_text_buffer_def same_flags_def)
      ultimately show ?thesis using assms(2) by (auto dest: one_mode_same)
    qed
  qed
qed (use assms in \<open>auto simp: Update_def one_mode_def\<close>)

text \<open>
  C9, amended. In the Search, Rename or Jump mode a key event is handled by the step of
  the text mode and by nothing else: the enter key commits the buffer and the escape key
  discards it, both returning to the normal mode; the backspace key drops the last byte
  of the buffer if there is one; every other key appends its text, which is the
  character of a character key and the name of any other key, to the buffer of the
  mode. No key returns a command to the event loop or changes the clipboard, the trash
  directory or the pending chord, or pops the undo stack; a key other than confirm
  changes neither the file system nor the entries, the cursor, the current path or the
  undo stack. Where the buffer ends in a one-byte character (or is empty) and the key
  typed is a character key, the result is one of the four effects as the claim words
  them.
\<close>

theorem mode_isolation:
  "(mode_of m \<noteq> Normal \<longrightarrow> Update e (KeyMsg ty s) m fs = text_mode_step e ty s m fs)
   \<and> (mode_of m \<noteq> Normal \<and> Update e (KeyMsg ty s) m fs = Inr (m', fs', c) \<longrightarrow>
        c = NoCmd \<and> untouched m m'
        \<and> (ty \<noteq> KeyEnter \<longrightarrow> fs' = fs \<and> same_view m m')
        \<and> ((ty = KeyEnter \<or> ty = KeyEsc) \<and> one_mode m \<longrightarrow> mode_of m' = Normal)
        \<and> (ty \<noteq> KeyEnter \<and> ty \<noteq> KeyEsc \<longrightarrow> mode_of m' = mode_of m)
        \<and> ((ty = KeyBackspace \<longrightarrow>
               drop_last_character (text_buffer m) = butlast (text_buffer m))
            \<and> (ty = KeyRunes \<or> ty = KeyOther \<longrightarrow> one_character s)
            \<longrightarrow> claimed_effect e s m fs (m', fs')))"
  using text_mode_refines[of m e ty s fs]
        text_mode_step_untouched[of e ty s m fs m' fs' c]
        text_mode_step_same_view[of e ty s m fs m' fs' c]
        text_mode_step_leaves[of e ty s m fs m' fs' c]
        text_mode_step_stays[of e ty s m fs m' fs' c]
        text_mode_step_claimed[of e ty s m fs m' fs' c]
  by auto

theorem mode_isolation_witness:
  "mode_of ex_search \<noteq> Normal \<and> one_mode ex_search \<and> one_character ''d''
   \<and> Update (at_time 0) (KeyMsg KeyRunes ''d'') ex_search ex_fs
       = Inr (ex_search\<lparr>searchQuery := ''cd''\<rparr>, ex_fs, NoCmd)
   \<and> untouched ex_search (ex_search\<lparr>searchQuery := ''cd''\<rparr>)
   \<and> same_view ex_search (ex_search\<lparr>searchQuery := ''cd''\<rparr>)
   \<and> mode_of (ex_search\<lparr>searchQuery := ''cd''\<rparr>) = mode_of ex_search
   \<and> claimed_effect (at_time 0) ''d'' ex_search ex_fs (ex_search\<lparr>searchQuery := ''cd''\<rparr>, ex_fs)
   \<and> Update (at_time 1) (KeyMsg KeyEsc ''esc'') ex_search ex_fs
       = Inr (ex_model, ex_fs, NoCmd)
   \<and> mode_of ex_model = Normal
   \<and> Update (at_time 2) (KeyMsg KeyOther ''ctrl+c'') ex_search ex_fs
       = Inr (ex_search\<lparr>searchQuery := ''cctrl+c''\<rparr>, ex_fs, NoCmd)
   \<and> untouched ex_search (ex_search\<lparr>searchQuery := ''cctrl+c''\<rparr>)
   \<and> same_view ex_search (ex_search\<lparr>searchQuery := ''cctrl+c''\<rparr>)
   \<and> mode_of ex_accent \<noteq> Normal
   \<and> Update (at_time 3) (KeyMsg KeyBackspace ''backspace'') ex_accent ex_fs
       = Inr (ex_accent\<lparr>searchQuery := [CHR 0xC3]\<rparr>, ex_fs, NoCmd)
   \<and> same_view ex_accent (ex_accent\<lparr>searchQuery := [CHR 0xC3]\<rparr>)"
proof -
  have h: "mode_of ex_search \<noteq> Normal" "one_mode ex_search" "mode_of ex_model = Normal"
    "mode_of ex_accent \<noteq> Normal" "one_character ''d''"
    by (simp_all add: mode_of_def one_mode_def ex_search_def ex_accent_def ex_model_def
          one_character_def)
  have a: "text_mode_step (at_time 0) KeyRunes ''d'' ex_search ex_fs
       = Inr (ex_search\<lparr>searchQuery := ''cd''\<rparr>, ex_fs, NoCmd)"
    by (simp add: text_mode_step_def set_text_buffer_def text_buffer_def mode_of_def ex_search_def)
  have b: "text_mode_step (at_time 1) KeyEsc ''esc'' ex_search ex_fs = Inr (ex_model, ex_fs, NoCmd)"
    by (simp add: text_mode_step_def leave_mode_def mode_of_def ex_search_def ex_model_def)
  have c: "text_mode_step (at_time 2) KeyOther ''ctrl+c'' ex_search ex_fs
       = Inr (ex_search\<lparr>searchQuery := ''cctrl+c''\<rparr>, ex_fs, NoCmd)"
    by (simp add: text_mode_step_def set_text_buffer_def text_buffer_def mode_of_def ex_search_def)
  have d: "text_mode_step (at_time 3) KeyBackspace ''backspace'' ex_accent ex_fs
       = Inr (ex_accent\<lparr>searchQuery := [CHR 0xC3]\<rparr>, ex_fs, NoCmd)"
    by (simp add: text_mode_step_def set_text_buffer_def text_buffer_def mode_of_def ex_accent_def)
  show ?thesis
    using h a b c d
      mode_isolation[of ex_search "at_time 0" KeyRunes "''d''" ex_fs
        "ex_search\<lparr>searchQuery := ''cd''\<rparr>" ex_fs NoCmd]
      mode_isolation[of ex_search "at_time 1" KeyEsc "''esc''" ex_fs ex_model ex_fs NoCmd]
      mode_isolation[of ex_search "at_time 2" KeyOther "''ctrl+c''" ex_fs
        "ex_search\<lparr>searchQuery := ''cctrl+c''\<rparr>" ex_fs NoCmd]
      mode_isolation[of ex_accent "at_time 3" KeyBackspace "''backspace''" ex_fs
        "ex_accent\<lparr>searchQuery := [CHR 0xC3]\<rparr>" ex_fs NoCmd]
    by simp
qed

section \<open>Going to the parent directory: C7\<close>

lemma first_index_None: "first_index P xs = None \<longleftrightarrow> (\<forall>x\<in>set xs. \<not> P x)"
  by (induction xs) auto

lemma first_index_Some:
  "first_index P xs = Some i \<longleftrightarrow> i < length xs \<and> P (xs ! i) \<and> (\<forall>j<i. \<not> P (xs ! j))"
proof (induction xs arbitrary: i)
  case Nil
  then show ?case by simp
next
  case (Cons x xs)
  show ?case
  proof (cases "P x")
    case True
    then show ?thesis by (cases i) auto
  next
    case False
    show ?thesis
    proof (cases i)
      case 0
      with False show ?thesis by auto
    next
      case (Suc k)
      have "(\<forall>j<Suc k. \<not> P ((x # xs) ! j)) \<longleftrightarrow> (\<forall>j<k. \<not> P (xs ! j))"
        using False by (auto simp: less_Suc_eq_0_disj)
      with False Suc Cons.IH[of k] show ?thesis by auto
    qed
  qed
qed

definition ex_hidden :: FileManager where
  "ex_hidden = ex_model\<lparr>CurrentPath := ''/home/.hid'',
                        Entries := ReadDirectory ex_fs ''/home/.hid'', Cursor := 1\<rparr>"

text \<open>
  C7 at a failing input. The current directory is the hidden directory
  \<^verbatim>\<open>/home/.hid\<close> with the cursor on its second entry. \<^verbatim>\<open>ReadDirectory\<close> leaves hidden
  names out, so the listing of the parent has no entry of the name of the directory just
  left; the loop that looks for it changes nothing, and the cursor keeps the index it had
  in the directory below (1) where C7 says 0.
\<close>

theorem ascend_from_hidden_directory:
  "map_sum id (\<lambda>(m, fs, c). (CurrentPath m, map Name (Entries m), Cursor m))
     (Update (at_time 0) (KeyMsg KeyRunes ''h'') ex_hidden ex_fs)
   = Inr (''/home'', [''b'', ''a.txt'', ''c.txt''], 1)
   \<and> map Name (Entries ex_hidden) = [''x'', ''y''] \<and> Cursor ex_hidden = 1"
  by code_simp

lemma ascend_root: "filepath_Dir (CurrentPath m) = CurrentPath m \<Longrightarrow> ascend m fs = m"
  by (simp add: ascend_def)

lemma ascend_frame:
  "(ascend m fs)\<lparr>CurrentPath := CurrentPath m, Entries := Entries m, Cursor := Cursor m\<rparr> = m"
  by (simp add: ascend_def Let_def split: option.splits)

lemma ascend_up:
  assumes "filepath_Dir (CurrentPath m) \<noteq> CurrentPath m"
  shows "CurrentPath (ascend m fs) = filepath_Dir (CurrentPath m)"
    and "Entries (ascend m fs) = ReadDirectory fs (filepath_Dir (CurrentPath m))"
  using assms by (simp_all add: ascend_def Let_def split: option.splits)

lemma ascend_found:
  assumes np: "filepath_Dir (CurrentPath m) \<noteq> CurrentPath m"
    and ex: "\<exists>entry \<in> set (Entries (ascend m fs)). Name entry = filepath_Base (CurrentPath m)"
  shows "0 \<le> Cursor (ascend m fs) \<and> nat (Cursor (ascend m fs)) < length (Entries (ascend m fs))
         \<and> Name (Entries (ascend m fs) ! nat (Cursor (ascend m fs))) = filepath_Base (CurrentPath m)
         \<and> (\<forall>j < nat (Cursor (ascend m fs)).
               Name (Entries (ascend m fs) ! j) \<noteq> filepath_Base (CurrentPath m))"
proof -
  let ?base = "filepath_Base (CurrentPath m)"
  let ?es = "ReadDirectory fs (filepath_Dir (CurrentPath m))"
  from ex np have "first_index (\<lambda>entry. Name entry = ?base) ?es \<noteq> None"
    by (simp add: first_index_None ascend_up)
  then obtain i where i: "first_index (\<lambda>entry. Name entry = ?base) ?es = Some i" by auto
  with np have "Cursor (ascend m fs) = int i" by (simp add: ascend_def Let_def)
  with i np show ?thesis by (simp add: first_index_Some ascend_up)
qed

lemma ascend_missing:
  assumes np: "filepath_Dir (CurrentPath m) \<noteq> CurrentPath m"
    and no: "\<forall>entry \<in> set (Entries (ascend m fs)). Name entry \<noteq> filepath_Base (CurrentPath m)"
  shows "Cursor (ascend m fs) = Cursor m"
proof -
  from no np have "first_index (\<lambda>entry. Name entry = filepath_Base (CurrentPath m))
      (ReadDirectory fs (filepath_Dir (CurrentPath m))) = None"
    by (simp add: first_index_None ascend_up)
  with np show ?thesis by (simp add: ascend_def Let_def)
qed

lemma Update_h: "normal_mode m \<Longrightarrow> Update e (KeyMsg ty ''h'') m fs = Inr (ascend m fs, fs, NoCmd)"
  by (simp add: Update_normal update_normal_keys)

lemma Update_left:
  "normal_mode m \<Longrightarrow> Update e (KeyMsg ty ''left'') m fs = Inr (ascend m fs, fs, NoCmd)"
  by (simp add: Update_normal update_normal_keys)

text \<open>
  The rest of C7 holds of the code: at the root (the parent of the current path is the
  current path) the keys h and left change nothing; otherwise the current path becomes the
  parent, the entries are read again, and when an entry has the name of the directory
  just left the cursor is the first index of such an entry. When no entry has that name
  the cursor stays as it was. No other field changes.
\<close>

theorem ascend_to_parent:
  assumes "normal_mode m" and "s = ''h'' \<or> s = ''left''"
  shows "Update e (KeyMsg ty s) m fs = Inr (ascend m fs, fs, NoCmd)
    \<and> (filepath_Dir (CurrentPath m) = CurrentPath m \<longrightarrow> ascend m fs = m)
    \<and> (filepath_Dir (CurrentPath m) \<noteq> CurrentPath m \<longrightarrow>
         CurrentPath (ascend m fs) = filepath_Dir (CurrentPath m)
         \<and> Entries (ascend m fs) = ReadDirectory fs (filepath_Dir (CurrentPath m))
         \<and> ((\<exists>entry \<in> set (Entries (ascend m fs)). Name entry = filepath_Base (CurrentPath m)) \<longrightarrow>
              0 \<le> Cursor (ascend m fs)
              \<and> nat (Cursor (ascend m fs)) < length (Entries (ascend m fs))
              \<and> Name (Entries (ascend m fs) ! nat (Cursor (ascend m fs)))
                  = filepath_Base (CurrentPath m)
              \<and> (\<forall>j < nat (Cursor (ascend m fs)).
                    Name (Entries (ascend m fs) ! j) \<noteq> filepath_Base (CurrentPath m)))
         \<and> ((\<forall>entry \<in> set (Entries (ascend m fs)).
                 Name entry \<noteq> filepath_Base (CurrentPath m)) \<longrightarrow>
              Cursor (ascend m fs) = Cursor m)
         \<and> (ascend m fs)\<lparr>CurrentPath := CurrentPath m, Entries := Entries m,
                           Cursor := Cursor m\<rparr> = m)"
  apply (intro conjI impI)
  subgoal using assms(2) Update_h[OF assms(1)] Update_left[OF assms(1)] by blast
  subgoal by (rule ascend_root)
  subgoal by (rule ascend_up)
  subgoal by (rule ascend_up)
  subgoal using ascend_found[of m fs] by blast
  subgoal using ascend_found[of m fs] by blast
  subgoal using ascend_found[of m fs] by blast
  subgoal using ascend_found[of m fs] by blast
  subgoal by (rule ascend_missing)
  subgoal by (rule ascend_frame)
  done

theorem ascend_to_parent_witness:
  "normal_mode ex_hidden \<and> filepath_Dir (CurrentPath ex_hidden) \<noteq> CurrentPath ex_hidden
   \<and> (\<exists>m'. Update (at_time 0) (KeyMsg KeyRunes ''h'') ex_hidden ex_fs = Inr (m', ex_fs, NoCmd)
        \<and> CurrentPath m' = ''/home'' \<and> Cursor m' = 1)"
proof -
  have h: "normal_mode ex_hidden" "filepath_Dir (CurrentPath ex_hidden) = ''/home''"
    "filepath_Dir (CurrentPath ex_hidden) \<noteq> CurrentPath ex_hidden"
    "filepath_Base (CurrentPath ex_hidden) = ''.hid''" "Cursor ex_hidden = 1"
    "map Name (ReadDirectory ex_fs ''/home'') = [''b'', ''a.txt'', ''c.txt'']"
    by code_simp+
  have "''.hid'' \<notin> set (map Name (ReadDirectory ex_fs ''/home''))"
    by (simp add: h(6))
  then have no: "\<forall>entry \<in> set (ReadDirectory ex_fs ''/home''). Name entry \<noteq> ''.hid''"
    by force
  note t = ascend_to_parent[of ex_hidden "''h''" "at_time 0" KeyRunes ex_fs, OF h(1)]
  from t have u: "Update (at_time 0) (KeyMsg KeyRunes ''h'') ex_hidden ex_fs
      = Inr (ascend ex_hidden ex_fs, ex_fs, NoCmd)" by simp
  from t h(3) have p: "CurrentPath (ascend ex_hidden ex_fs) = filepath_Dir (CurrentPath ex_hidden)"
    and es: "Entries (ascend ex_hidden ex_fs) = ReadDirectory ex_fs (filepath_Dir (CurrentPath ex_hidden))"
    and cu: "(\<forall>entry \<in> set (Entries (ascend ex_hidden ex_fs)).
                 Name entry \<noteq> filepath_Base (CurrentPath ex_hidden)) \<longrightarrow>
              Cursor (ascend ex_hidden ex_fs) = Cursor ex_hidden"
    by simp_all
  from cu es no h have "Cursor (ascend ex_hidden ex_fs) = 1" by simp
  with u p h show ?thesis by simp
qed


section \<open>Undo: C3\<close>

lemma undo_empty: "undoStack m = [] \<Longrightarrow> undoLastAction m fs = (m, fs)"
  by (simp add: undoLastAction_def)

lemma undo_move_fails:
  assumes "undoStack m = st @ [a]"
    and "Type a = ''delete'' \<and> NewPath a \<noteq> [] \<or> Type a = ''move'' \<or> Type a = ''rename''"
    and "os_Rename fs (NewPath a) (OldPath a) = None"
  shows "undoLastAction m fs = (m, fs)"
proof -
  have "m\<lparr>undoStack := st @ [a]\<rparr> = m" using assms(1) by simp
  with assms show ?thesis
    by (auto simp: undoLastAction_def undo_move_def Let_def)
qed

lemma undo_move_succeeds:
  assumes "undoStack m = st @ [a]"
    and "Type a = ''delete'' \<and> NewPath a \<noteq> [] \<or> Type a = ''move'' \<or> Type a = ''rename''"
    and "os_Rename fs (NewPath a) (OldPath a) = Some fs1"
  shows "undoLastAction m fs =
           (m\<lparr>undoStack := st, Entries := ReadDirectory fs1 (CurrentPath m)\<rparr>, fs1)"
  using assms by (auto simp: undoLastAction_def undo_move_def Let_def)

lemma undo_copy:
  assumes "undoStack m = st @ [a]" and "Type a = ''copy''" and "NewPath a \<noteq> []"
  shows "undoLastAction m fs =
           (m\<lparr>undoStack := st,
               Entries := ReadDirectory (fst (os_RemoveAll fs (NewPath a))) (CurrentPath m)\<rparr>,
            fst (os_RemoveAll fs (NewPath a)))"
  using assms by (simp add: undoLastAction_def Let_def)

lemma undo_cut:
  assumes "undoStack m = st @ [a]" and "Type a = ''cut''"
  shows "undoLastAction m fs =
           (m\<lparr>undoStack := st, clipboard := None, clipboardOp := [],
               Entries := ReadDirectory fs (CurrentPath m)\<rparr>, fs)"
  using assms by (simp add: undoLastAction_def Let_def)

text \<open>
  C3. Undo on an empty ledger changes nothing. Otherwise it takes the last entry. For a
  delete entry (with its trash path), a move entry and a rename entry it moves the new
  path back to the old one: when that move fails, the state and the file system are as
  before, the entry on the ledger again; when it succeeds, the entry is gone and the
  snapshot is read again. For a copy entry the created path is removed with
  \<^verbatim>\<open>os.RemoveAll\<close>, whose error is not looked at: the entry is gone and the snapshot is
  read again whatever the removal did. For a cut entry the clipboard is cleared, the
  entry is gone and the snapshot is read again; the file system is not touched.
\<close>

theorem undo_failure_policy:
  "(undoStack m = [] \<longrightarrow> undoLastAction m fs = (m, fs))
   \<and> (undoStack m = st @ [a]
        \<and> (Type a = ''delete'' \<and> NewPath a \<noteq> [] \<or> Type a = ''move'' \<or> Type a = ''rename'')
      \<longrightarrow> (os_Rename fs (NewPath a) (OldPath a) = None \<longrightarrow> undoLastAction m fs = (m, fs))
          \<and> (\<forall>fs1. os_Rename fs (NewPath a) (OldPath a) = Some fs1 \<longrightarrow>
                undoLastAction m fs =
                  (m\<lparr>undoStack := st, Entries := ReadDirectory fs1 (CurrentPath m)\<rparr>, fs1)))
   \<and> (undoStack m = st @ [a] \<and> Type a = ''copy'' \<and> NewPath a \<noteq> [] \<longrightarrow>
        undoLastAction m fs =
          (m\<lparr>undoStack := st,
              Entries := ReadDirectory (fst (os_RemoveAll fs (NewPath a))) (CurrentPath m)\<rparr>,
           fst (os_RemoveAll fs (NewPath a))))
   \<and> (undoStack m = st @ [a] \<and> Type a = ''cut'' \<longrightarrow>
        undoLastAction m fs =
          (m\<lparr>undoStack := st, clipboard := None, clipboardOp := [],
              Entries := ReadDirectory fs (CurrentPath m)\<rparr>, fs))"
  using undo_empty[of m fs] undo_move_fails[of m st a fs] undo_move_succeeds[of m st a fs]
        undo_copy[of m st a fs] undo_cut[of m st a fs]
  by blast

definition ex_entry :: FileEntry where
  "ex_entry = \<lparr>Name = ''a.txt'', Path = ''/home/a.txt'', IsDir = False, Selected = False\<rparr>"

definition ex_lost_delete :: UndoAction where
  "ex_lost_delete = \<lparr>Type = ''delete'', OldPath = ''/home/a.txt'',
      NewPath = ''/tmp/tfm_trash_123/a.txt'', Entry = ex_entry, OldName = []\<rparr>"

definition ex_copy :: UndoAction where
  "ex_copy = \<lparr>Type = ''copy'', OldPath = [], NewPath = ''/home/c.txt'',
      Entry = ex_entry, OldName = []\<rparr>"

definition ex_fs_readonly :: filesys where
  "ex_fs_readonly = ex_fs\<lparr>readonly := [[''home'']]\<rparr>"

theorem undo_failure_policy_witness:
  "undoStack ex_model = [] \<and> undoLastAction ex_model ex_fs = (ex_model, ex_fs)
   \<and> undoStack (ex_model\<lparr>undoStack := [ex_lost_delete]\<rparr>) = [] @ [ex_lost_delete]
   \<and> Type ex_lost_delete = ''delete'' \<and> NewPath ex_lost_delete \<noteq> []
   \<and> os_Rename ex_fs (NewPath ex_lost_delete) (OldPath ex_lost_delete) = None
   \<and> undoLastAction (ex_model\<lparr>undoStack := [ex_lost_delete]\<rparr>) ex_fs
        = (ex_model\<lparr>undoStack := [ex_lost_delete]\<rparr>, ex_fs)
   \<and> Type ex_copy = ''copy'' \<and> NewPath ex_copy \<noteq> []
   \<and> os_RemoveAll ex_fs_readonly (NewPath ex_copy) = (ex_fs_readonly, False)
   \<and> undoLastAction (ex_model\<lparr>undoStack := [ex_copy]\<rparr>) ex_fs_readonly
        = (ex_model\<lparr>undoStack := [],
             Entries := ReadDirectory ex_fs_readonly (CurrentPath ex_model)\<rparr>, ex_fs_readonly)"
proof -
  have h1: "undoStack ex_model = []" by (simp add: ex_model_def)
  have h2: "undoStack (ex_model\<lparr>undoStack := [ex_lost_delete]\<rparr>) = [] @ [ex_lost_delete]"
    "Type ex_lost_delete = ''delete''" "NewPath ex_lost_delete \<noteq> []"
    by (simp_all add: ex_lost_delete_def)
  have h3: "os_Rename ex_fs (NewPath ex_lost_delete) (OldPath ex_lost_delete) = None"
    by code_simp
  have h4: "undoStack (ex_model\<lparr>undoStack := [ex_copy]\<rparr>) = [] @ [ex_copy]"
    "Type ex_copy = ''copy''" "NewPath ex_copy \<noteq> []"
    by (simp_all add: ex_copy_def)
  have h5: "os_RemoveAll ex_fs_readonly (NewPath ex_copy) = (ex_fs_readonly, False)"
    by code_simp
  show ?thesis
    using h1 h2 h3 h4 h5
      undo_failure_policy[of ex_model ex_fs "[]" ex_lost_delete]
      undo_failure_policy[of "ex_model\<lparr>undoStack := [ex_lost_delete]\<rparr>" ex_fs "[]" ex_lost_delete]
      undo_failure_policy[of "ex_model\<lparr>undoStack := [ex_copy]\<rparr>" ex_fs_readonly "[]" ex_copy]
    by simp
qed


section \<open>Pushes on the undo stack: C8\<close>





text \<open>What each operation may do to the undo stack, read off its definition.\<close>

lemma cutFile_ledger:
  assumes "cutFile m = Inr m'"
  shows "undoStack m' = undoStack m
         \<or> (\<exists>a. undoStack m' = undoStack m @ [a] \<and> Type a = ''cut'')"
  using assms
  by (auto simp: cutFile_def Let_def clamp_cursor_def split: if_splits sum.splits)





































text \<open>
  The second name of a copy is not tested. In a directory that holds \<^verbatim>\<open>a.txt\<close> and
  \<^verbatim>\<open>a_copy.txt\<close>, copying \<^verbatim>\<open>a.txt\<close> and pasting it in place writes over
  \<^verbatim>\<open>a_copy.txt\<close> and pushes a copy entry for it; undo then removes the file, and what
  it held before the paste is lost. The statement above says nothing about this case.
\<close>

definition ex_fs_copy :: filesys where
  "ex_fs_copy = ex_fs\<lparr>nodes := nodes ex_fs @ [([''home'', ''a_copy.txt''], File ''OLD'')]\<rparr>"

definition ex_model_copy :: FileManager where
  "ex_model_copy = ex_model\<lparr>Entries := ReadDirectory ex_fs_copy ''/home''\<rparr>"

lemma paste_over_existing_copy:
  "map Name (Entries ex_model_copy) = [''b'', ''a.txt'', ''a_copy.txt'', ''c.txt'']
   \<and> os_Stat ex_fs_copy ''/home/a_copy.txt'' = Some (File ''OLD'')
   \<and> map_sum id (\<lambda>(m, fs). (map Type (undoStack m), map NewPath (undoStack m),
         os_Stat fs ''/home/a_copy.txt''))
       (run_events [(at_time 0, KeyMsg KeyRunes ''y''),
                    (at_time 100000000, KeyMsg KeyRunes ''y''),
                    (at_time 200000000, KeyMsg KeyRunes ''p''),
                    (at_time 300000000, KeyMsg KeyRunes ''p'')] ex_model_copy ex_fs_copy)
     = Inr ([''copy''], [''/home/a_copy.txt''], Some (File ''A''))
   \<and> map_sum id (\<lambda>(m, fs). (map Type (undoStack m), os_Stat fs ''/home/a_copy.txt''))
       (run_events [(at_time 0, KeyMsg KeyRunes ''y''),
                    (at_time 100000000, KeyMsg KeyRunes ''y''),
                    (at_time 200000000, KeyMsg KeyRunes ''p''),
                    (at_time 300000000, KeyMsg KeyRunes ''p''),
                    (at_time 400000000, KeyMsg KeyRunes ''u'')] ex_model_copy ex_fs_copy)
     = Inr ([], None)"
  by code_simp

end
